theory Spec2Isabelle
  imports Main "HOL-Library.Multiset" "HOL-Library.Sublist" "HOL-Library.AList"
begin

section \<open>Strings, errors and the relational state\<close>

text \<open>
  The part of \<open>backend/models.py\<close> used by agent assignment, the business-hours
  service, the Ollama chatbot, the connection manager and the webhook router.
\<close>

text \<open>
  A Python \<open>str\<close> is a sequence of Unicode code points: \<open>len\<close>, slicing, \<open>in\<close> and
  \<open>strip\<close> all work on code points. The source's keyword and message literals are
  Korean, so a string is modelled as the list of its code points. \<open>lit\<close> embeds an
  ASCII literal.
\<close>

type_synonym pystr = "nat list"

definition lit :: "string \<Rightarrow> pystr" where
  "lit s = map of_char s"

text \<open>The exceptions that the modelled code can let escape.\<close>

datatype error = TypeError | ValueError | SendError

text \<open>
  Rows of \<open>models.py\<close>. A column declared without \<open>nullable=False\<close> may hold NULL
  and is an \<open>option\<close>; instants (\<open>datetime\<close> values) are natural numbers, and the
  \<open>created_at\<close> and \<open>updated_at\<close> columns, which the ORM always fills, are plain
  instants. Only the columns that the modelled operations read or write are kept.
\<close>

record user =
  user_id :: int
  user_name :: "pystr option"
  user_email :: pystr
  role :: "pystr option"
  is_active :: "bool option"
  user_status :: "pystr option"
  auto_assign :: "bool option"
  max_concurrent_chats :: "int option"

record customer =
  customer_id :: int
  customer_external_id :: pystr
  customer_platform :: pystr
  customer_name :: "pystr option"
  customer_profile_image :: "pystr option"
  customer_created_at :: nat
  customer_updated_at :: nat

record conversation =
  conv_id :: int
  conv_customer_id :: int
  channel_type :: "pystr option"
  conv_status :: "pystr option"
  assigned_agent_id :: "int option"
  assigned_at :: "nat option"
  priority :: "int option"
  unread_count :: "int option"
  last_message_at :: "nat option"
  profile_name :: "pystr option"
  conv_profile_image :: "pystr option"
  conv_created_at :: nat
  conv_updated_at :: nat

record message =
  msg_id :: int
  conversation_id :: int
  sender_type :: "pystr option"
  sender_id :: "int option"
  content :: pystr
  message_type :: "pystr option"
  msg_status :: "pystr option"
  channel :: "pystr option"
  msg_created_at :: nat

record business_hours_row =
  bh_id :: int
  day_of_week :: int
  open_time :: pystr
  close_time :: pystr
  bh_is_active :: "bool option"

text \<open>
  The database session: one list of rows per table, in the order in which a query
  without \<open>order_by\<close> returns them (\<open>.first()\<close> is the first matching row of the list).
\<close>

record database =
  users :: "user list"
  customers :: "customer list"
  conversations :: "conversation list"
  messages :: "message list"
  business_hours :: "business_hours_row list"

section \<open>Agent assignment (\<open>backend/services/agent_assignment.py\<close>)\<close>

text \<open>One element of the list \<open>get_available_agents\<close> returns (a dict in the source).\<close>

record avail =
  agent :: user
  current_load :: int
  capacity :: int

text \<open>
  \<open>db.query(func.count(Conversation.id)).filter(assigned_agent_id == agent.id,
  status == "open").scalar()\<close>
\<close>

definition current_chats :: "database \<Rightarrow> int \<Rightarrow> int" where
  "current_chats db aid =
     int (length (filter (\<lambda>c. assigned_agent_id c = Some aid \<and> conv_status c = Some (lit ''open''))
                         (conversations db)))"

text \<open>
  The \<open>for agent in agents\<close> loop with its accumulator \<open>available\<close>. The comparison
  \<open>current_chats < agent.max_concurrent_chats\<close> raises \<open>TypeError\<close> when the column
  holds NULL.
\<close>

fun available_loop :: "database \<Rightarrow> user list \<Rightarrow> avail list \<Rightarrow> error + avail list" where
  "available_loop db [] available = Inr available"
| "available_loop db (a # agents) available =
     (case max_concurrent_chats a of
        None \<Rightarrow> Inl TypeError
      | Some cap \<Rightarrow>
          if current_chats db (user_id a) < cap
          then available_loop db agents
                 (available @ [\<lparr>agent = a, current_load = current_chats db (user_id a), capacity = cap\<rparr>])
          else available_loop db agents available)"

text \<open>The SQL filter of the first query of \<open>get_available_agents\<close>.\<close>

definition in_pool :: "user \<Rightarrow> bool" where
  "in_pool u \<longleftrightarrow>
     role u = Some (lit ''agent'') \<and> is_active u = Some True \<and>
     user_status u = Some (lit ''online'') \<and> auto_assign u = Some True"

text \<open>\<open>list.sort(key=...)\<close> is a stable sort, as \<open>sort_key\<close> is.\<close>

definition get_available_agents :: "database \<Rightarrow> error + avail list" where
  "get_available_agents db =
     (let agents = filter in_pool (users db) in
      case available_loop db agents [] of
        Inl e \<Rightarrow> Inl e
      | Inr available \<Rightarrow> Inr (sort_key current_load available))"

text \<open>
  The write of an ORM object is \<open>UPDATE conversations SET ... WHERE id = ?\<close>; the
  column \<open>updated_at\<close> has \<open>onupdate=datetime.utcnow\<close>.
\<close>

definition update_conversation ::
  "int \<Rightarrow> (conversation \<Rightarrow> conversation) \<Rightarrow> nat \<Rightarrow> database \<Rightarrow> database" where
  "update_conversation cid f now db =
     db\<lparr>conversations :=
          map (\<lambda>c. if conv_id c = cid then (f c)\<lparr>conv_updated_at := now\<rparr> else c)
              (conversations db)\<rparr>"

definition get_conversation :: "database \<Rightarrow> int \<Rightarrow> conversation option" where
  "get_conversation db cid = find (\<lambda>c. conv_id c = cid) (conversations db)"

text \<open>
  \<open>assign_agent_to_conversation\<close>; \<open>now\<close> is the value of \<open>datetime.utcnow()\<close>.
  The result is the returned bool and the database after the call.
\<close>

definition assign_agent_to_conversation ::
  "database \<Rightarrow> int \<Rightarrow> nat \<Rightarrow> error + (bool \<times> database)" where
  "assign_agent_to_conversation db cid now =
     (case get_conversation db cid of
        None \<Rightarrow> Inr (False, db)
      | Some conversation \<Rightarrow>
          if assigned_agent_id conversation \<noteq> None then Inr (True, db)
          else
            (case get_available_agents db of
               Inl e \<Rightarrow> Inl e
             | Inr [] \<Rightarrow> Inr (False, db)
             | Inr (selected # _) \<Rightarrow>
                 Inr (True,
                      update_conversation cid
                        (\<lambda>c. c\<lparr>assigned_agent_id := Some (user_id (agent selected)),
                               assigned_at := Some now,
                               conv_status := Some (lit ''open'')\<rparr>) now db)))"

text \<open>\<open>reassign_agent\<close>: no capacity check, but the target must be a user of role agent.\<close>

definition reassign_agent :: "database \<Rightarrow> int \<Rightarrow> int \<Rightarrow> nat \<Rightarrow> bool \<times> database" where
  "reassign_agent db cid new_agent_id now =
     (case get_conversation db cid of
        None \<Rightarrow> (False, db)
      | Some conversation \<Rightarrow>
          (case find (\<lambda>u. user_id u = new_agent_id \<and> role u = Some (lit ''agent'')) (users db) of
             None \<Rightarrow> (False, db)
           | Some new_agent \<Rightarrow>
               (True,
                update_conversation cid
                  (\<lambda>c. c\<lparr>assigned_agent_id := Some new_agent_id, assigned_at := Some now\<rparr>)
                  now db)))"

text \<open>Properties of the availability loop are stated with these two abbreviations.\<close>

definition annotate :: "database \<Rightarrow> user \<Rightarrow> avail" where
  "annotate db a =
     \<lparr>agent = a, current_load = current_chats db (user_id a),
      capacity = the (max_concurrent_chats a)\<rparr>"

definition under_capacity :: "database \<Rightarrow> user \<Rightarrow> bool" where
  "under_capacity db a \<longleftrightarrow>
     (\<exists>cap. max_concurrent_chats a = Some cap \<and> current_chats db (user_id a) < cap)"

section \<open>Business hours (\<open>backend/services/business_hours.py\<close>)\<close>

text \<open>A \<open>datetime.time\<close>; comparison is lexicographic on the four fields.\<close>

record pytime =
  hour :: nat
  minute :: nat
  second :: nat
  microsecond :: nat

definition time_le :: "pytime \<Rightarrow> pytime \<Rightarrow> bool" where
  "time_le a b \<longleftrightarrow>
     hour a < hour b \<or>
     (hour a = hour b \<and>
       (minute a < minute b \<or>
        (minute a = minute b \<and>
          (second a < second b \<or>
           (second a = second b \<and> microsecond a \<le> microsecond b)))))"

text \<open>
  \<open>datetime.strptime(s, "%H:%M").time()\<close> matches the string against the regular
  expression \<open>(2[0-3]|[0-1]\d|\d):([0-5]\d|\d)\<close> and raises \<open>ValueError\<close> (here
  \<open>None\<close>) when it does not match or when text is left over. The bracketed classes
  are ASCII; \<open>\d\<close> is any Unicode decimal digit (category Nd), which \<open>int\<close> reads by
  its decimal value. The Nd characters come in runs of ten, from the digit zero to the
  digit nine of a script: \<open>decimal_zeros\<close> lists the code point of each run's zero
  (Unicode 14, the table of Python 3.11).
\<close>

definition decimal_zeros :: "nat list" where
  "decimal_zeros =
     [48, 1632, 1776, 1984, 2406, 2534, 2662, 2790, 2918, 3046, 3174, 3302, 3430, 3558, 3664,
      3792, 3872, 4160, 4240, 6112, 6160, 6470, 6608, 6784, 6800, 6992, 7088, 7232, 7248,
      42528, 43216, 43264, 43472, 43504, 43600, 44016, 65296, 66720, 68912, 69734, 69872,
      69942, 70096, 70384, 70736, 70864, 71248, 71360, 71472, 71904, 72016, 72784, 73040,
      73120, 92768, 92864, 93008, 120782, 120792, 120802, 120812, 120822, 123200, 123632,
      125264, 130032]"

definition digit_value :: "nat \<Rightarrow> nat option" where
  "digit_value c =
     (case find (\<lambda>z. z \<le> c \<and> c < z + 10) decimal_zeros of
        None \<Rightarrow> None
      | Some z \<Rightarrow> Some (c - z))"

text \<open>
  The hour group \<open>2[0-3]|[0-1]\d|\d\<close> and the minute group \<open>[0-5]\d|\d\<close>, each on
  the whole of its part of the string (the text before the first colon, the text after
  it).
\<close>

fun parse_hour :: "pystr \<Rightarrow> nat option" where
  "parse_hour [a] = digit_value a"
| "parse_hour [a, b] =
     (if a = 50 \<and> 48 \<le> b \<and> b \<le> 51 then Some (20 + (b - 48))
      else if a = 48 \<or> a = 49
      then (case digit_value b of None \<Rightarrow> None | Some v \<Rightarrow> Some (10 * (a - 48) + v))
      else None)"
| "parse_hour s = None"

fun parse_minute :: "pystr \<Rightarrow> nat option" where
  "parse_minute [a] = digit_value a"
| "parse_minute [a, b] =
     (if 48 \<le> a \<and> a \<le> 53
      then (case digit_value b of None \<Rightarrow> None | Some v \<Rightarrow> Some (10 * (a - 48) + v))
      else None)"
| "parse_minute s = None"

definition strptime_HM :: "pystr \<Rightarrow> pytime option" where
  "strptime_HM s =
     (case dropWhile (\<lambda>c. c \<noteq> 58) s of
        [] \<Rightarrow> None
      | colon # ms \<Rightarrow>
          (case parse_hour (takeWhile (\<lambda>c. c \<noteq> 58) s) of
             None \<Rightarrow> None
           | Some h \<Rightarrow>
               (case parse_minute ms of
                  None \<Rightarrow> None
                | Some m \<Rightarrow> Some \<lparr>hour = h, minute = m, second = 0, microsecond = 0\<rparr>)))"

text \<open>
  \<open>is_business_hours\<close>. The wall clock of the time zone is an input: \<open>current_day\<close>
  is \<open>now.weekday()\<close> (0 is Monday) and \<open>current_time\<close> is \<open>now.time()\<close>. The query
  filters on the weekday and on \<open>is_active == True\<close>.
\<close>

definition is_business_hours :: "database \<Rightarrow> int \<Rightarrow> pytime \<Rightarrow> error + bool" where
  "is_business_hours db current_day current_time =
     (case find (\<lambda>b. day_of_week b = current_day \<and> bh_is_active b = Some True)
                (business_hours db) of
        None \<Rightarrow> Inr True
      | Some business_hour \<Rightarrow>
          (case strptime_HM (open_time business_hour) of
             None \<Rightarrow> Inl ValueError
           | Some opening \<Rightarrow>
               (case strptime_HM (close_time business_hour) of
                  None \<Rightarrow> Inl ValueError
                | Some closing \<Rightarrow>
                    Inr (time_le opening current_time \<and> time_le current_time closing))))"

text \<open>\<open>BusinessHoursService.should_auto_respond\<close>.\<close>

definition bh_should_auto_respond :: "database \<Rightarrow> int \<Rightarrow> pytime \<Rightarrow> error + bool" where
  "bh_should_auto_respond db current_day current_time =
     (case is_business_hours db current_day current_time of
        Inl e \<Rightarrow> Inl e
      | Inr is_open \<Rightarrow>
          if \<not> is_open then Inr True
          else
            (case get_available_agents db of
               Inl e \<Rightarrow> Inl e
             | Inr available_agents \<Rightarrow> Inr (available_agents = [])))"

text \<open>
  A new row gets a primary key that no row of the table has: one more than the
  largest key in use.
\<close>

definition next_id :: "int list \<Rightarrow> int" where
  "next_id ids = fold max ids 0 + 1"

text \<open>
  \<open>create_default_business_hours\<close>: nothing when the table has a row; otherwise Monday
  to Friday 09:00 to 18:00 active, and Saturday and Sunday (commented as days off in the
  source) 00:00 to 00:00 with \<open>is_active=False\<close>.
\<close>

definition default_row :: "int \<Rightarrow> int \<Rightarrow> business_hours_row" where
  "default_row base d =
     (if d < 5
      then \<lparr>bh_id = base + d, day_of_week = d, open_time = lit ''09:00'',
            close_time = lit ''18:00'', bh_is_active = Some True\<rparr>
      else \<lparr>bh_id = base + d, day_of_week = d, open_time = lit ''00:00'',
            close_time = lit ''00:00'', bh_is_active = Some False\<rparr>)"

definition create_default_business_hours :: "database \<Rightarrow> database" where
  "create_default_business_hours db =
     (if business_hours db \<noteq> [] then db
      else db\<lparr>business_hours := map (default_row (next_id [])) [0, 1, 2, 3, 4, 5, 6]\<rparr>)"

section \<open>The Ollama chatbot (\<open>services/ollama_chatbot.py\<close>)\<close>

text \<open>\<open>k in message\<close> on strings: \<open>k\<close> occurs as a contiguous run.\<close>

fun py_in :: "pystr \<Rightarrow> pystr \<Rightarrow> bool" where
  "py_in k [] = (k = [])"
| "py_in k (c # m) = (prefix k (c # m) \<or> py_in k m)"

text \<open>The twelve keywords of \<open>should_auto_respond\<close>, as code points.\<close>

definition simple_keywords :: "pystr list" where
  "simple_keywords =
     [[0xC548, 0xB155], [0xC0AC, 0xC6A9, 0xBC95], [0xBC29, 0xBC95], [0xAE30, 0xB2A5],
      [0xCC44, 0xB110], [0xC5F0, 0xB3D9], [0xC704, 0xC82F], [0xB300, 0xC2DC, 0xBCF4, 0xB4DC],
      [0xD300, 0xC6D0], [0xCD08, 0xB300], [0xAC00, 0xC785], [0xB85C, 0xADF8, 0xC778]]"

definition ollama_should_auto_respond :: "pystr \<Rightarrow> bool" where
  "ollama_should_auto_respond message = list_ex (\<lambda>keyword. py_in keyword message) simple_keywords"

text \<open>
  The chatbot object: whether the \<open>ollama\<close> module was imported, the system prompt,
  and the call \<open>ollama.chat(...)['message']['content']\<close>, which is outside the
  repository: \<open>None\<close> stands for any exception raised by the call or by reading its
  result.
\<close>

record chat_message =
  chat_role :: pystr
  chat_content :: pystr

record chatbot =
  chat_available :: bool
  system_prompt :: pystr
  ollama_chat :: "chat_message list \<Rightarrow> pystr option"

text \<open>An entry of \<open>conversation_history\<close>: the dict with keys sender_type and content.\<close>

record history_entry =
  h_sender_type :: "pystr option"
  h_content :: pystr

definition is_space :: "nat \<Rightarrow> bool" where
  "is_space c \<longleftrightarrow>
     (0x9 \<le> c \<and> c \<le> 0xD) \<or> (0x1C \<le> c \<and> c \<le> 0x20) \<or> c = 0x85 \<or> c = 0xA0 \<or>
     c = 0x1680 \<or> (0x2000 \<le> c \<and> c \<le> 0x200A) \<or> c = 0x2028 \<or> c = 0x2029 \<or>
     c = 0x202F \<or> c = 0x205F \<or> c = 0x3000"

definition strip :: "pystr \<Rightarrow> pystr" where
  "strip s = rev (dropWhile is_space (rev (dropWhile is_space s)))"

text \<open>The three fixed Korean texts of \<open>get_response\<close>, as code points.\<close>

definition unavailable_text :: pystr where
  "unavailable_text =
     [51396, 49569, 54633, 45768, 45796, 46, 32, 54788, 51116, 32, 65, 73, 32, 52311, 48391,
      32, 49436, 48708, 49828, 47484, 32, 49324, 50857, 54624, 32, 49688, 32, 50630, 49845,
      45768, 45796, 46, 32, 49345, 45812, 50896, 44284, 32, 50672, 44208, 54644, 46300, 47532,
      44192, 49845, 45768, 45796, 46]"

definition failure_text :: pystr where
  "failure_text =
     [51396, 49569, 54633, 45768, 45796, 46, 32, 51068, 49884, 51201, 51064, 32, 50724, 47448,
      44032, 32, 48156, 49373, 54664, 49845, 45768, 45796, 46, 32, 49345, 45812, 50896, 44284,
      32, 50672, 44208, 54644, 46300, 47532, 44192, 49845, 45768, 45796, 46]"

definition truncation_suffix :: pystr where
  "truncation_suffix =
     [46, 46, 46, 10, 10, 45908, 32, 51088, 49464, 54620, 32, 45236, 50857, 51008, 32, 49345,
      45812, 50896, 44284, 32, 50672, 44208, 54644, 46300, 47532, 44192, 49845, 45768, 45796,
      46]"

definition context_header :: pystr where
  "context_header = [52280, 44256, 32, 51221, 48372, 58, 10]"

text \<open>The list \<open>messages\<close> that \<open>get_response\<close> builds before the call.\<close>

definition history_message :: "history_entry \<Rightarrow> chat_message" where
  "history_message msg =
     \<lparr>chat_role = (if h_sender_type msg = Some (lit ''customer'') then lit ''user''
                   else lit ''assistant''),
      chat_content = h_content msg\<rparr>"

definition build_messages :: "chatbot \<Rightarrow> pystr \<Rightarrow> history_entry list \<Rightarrow> pystr \<Rightarrow> chat_message list" where
  "build_messages cb user_message conversation_history context =
     [\<lparr>chat_role = lit ''system'', chat_content = system_prompt cb\<rparr>] @
     (if context \<noteq> []
      then [\<lparr>chat_role = lit ''system'', chat_content = context_header @ context\<rparr>] else []) @
     map history_message (drop (length conversation_history - 5) conversation_history) @
     [\<lparr>chat_role = lit ''user'', chat_content = user_message\<rparr>]"

text \<open>
  \<open>get_response\<close>. The whole body is inside \<open>try ... except Exception\<close>, and the handler
  returns a fixed text, so the function returns a string on every path.
\<close>

definition get_response :: "chatbot \<Rightarrow> pystr \<Rightarrow> history_entry list \<Rightarrow> pystr \<Rightarrow> pystr" where
  "get_response cb user_message conversation_history context =
     (if \<not> chat_available cb then unavailable_text
      else
        (case ollama_chat cb (build_messages cb user_message conversation_history context) of
           None \<Rightarrow> failure_text
         | Some response \<Rightarrow>
             (let answer = strip response in
              if length answer > 500 then take 500 answer @ truncation_suffix else answer)))"

section \<open>The connection manager (\<open>backend/websocket.py\<close>)\<close>

text \<open>
  What is sent over a socket is the JSON text of an event; the events of the modelled
  handlers are kept structured. \<open>Text\<close> is any other string.
\<close>

record notification =
  n_conversation_id :: int
  n_customer_id :: int
  n_customer_name :: pystr
  n_profile_image :: "pystr option"
  n_channel :: pystr
  n_message_id :: int
  n_message_content :: pystr
  n_message_created_at :: nat
  n_ai_responded :: bool

datatype payload = NewCustomerMessage notification | ConversationEnded int | Text pystr

text \<open>
  A live channel: \<open>send_text\<close> on a broken one raises, on a healthy one it delivers.
\<close>

record websocket =
  broken :: bool
  delivered :: "payload list"

definition send_text :: "websocket \<Rightarrow> payload \<Rightarrow> error + websocket" where
  "send_text ws p =
     (if broken ws then Inl SendError else Inr (ws\<lparr>delivered := delivered ws @ [p]\<rparr>))"

text \<open>\<open>active_connections\<close>: a dict, kept as an association list in insertion order.\<close>

type_synonym manager = "(pystr \<times> websocket) list"

definition connect :: "manager \<Rightarrow> websocket \<Rightarrow> pystr \<Rightarrow> manager" where
  "connect active_connections ws client_id = AList.update client_id ws active_connections"

definition disconnect :: "manager \<Rightarrow> pystr \<Rightarrow> manager" where
  "disconnect active_connections client_id = AList.delete client_id active_connections"

text \<open>\<open>send_personal_message\<close> has no \<open>try\<close>: what \<open>send_text\<close> raises leaves the method.\<close>

definition send_personal_message :: "manager \<Rightarrow> payload \<Rightarrow> pystr \<Rightarrow> error + manager" where
  "send_personal_message active_connections p client_id =
     (case map_of active_connections client_id of
        None \<Rightarrow> Inr active_connections
      | Some ws \<Rightarrow>
          (case send_text ws p of
             Inl e \<Rightarrow> Inl e
           | Inr ws' \<Rightarrow> Inr (AList.update client_id ws' active_connections)))"

text \<open>The two broadcast loops wrap each \<open>send_text\<close> in \<open>try ... except Exception\<close>.\<close>

fun broadcast :: "manager \<Rightarrow> payload \<Rightarrow> manager" where
  "broadcast [] p = []"
| "broadcast ((client_id, connection) # rest) p =
     (case send_text connection p of
        Inl e \<Rightarrow> (client_id, connection)
      | Inr connection' \<Rightarrow> (client_id, connection')) # broadcast rest p"

fun broadcast_to_agents :: "manager \<Rightarrow> payload \<Rightarrow> pystr option \<Rightarrow> manager" where
  "broadcast_to_agents [] p exclude_client = []"
| "broadcast_to_agents ((client_id, connection) # rest) p exclude_client =
     (if Some client_id \<noteq> exclude_client \<and> prefix (lit ''agent_'') client_id
      then (case send_text connection p of
              Inl e \<Rightarrow> (client_id, connection)
            | Inr connection' \<Rightarrow> (client_id, connection'))
      else (client_id, connection)) # broadcast_to_agents rest p exclude_client"

section \<open>Inbound messages (\<open>backend/routers/webhook.py\<close>)\<close>

text \<open>
  What a request reads from outside the database and the connection manager: the UTC
  clock, the wall clock of the business-hours time zone, the chatbot singleton and the
  knowledge-base lookup \<open>get_context_for_query\<close> (which catches its own exceptions).
\<close>

record env =
  utcnow :: nat
  local_weekday :: int
  local_time :: pytime
  ollama_chatbot :: chatbot
  get_context_for_query :: "pystr \<Rightarrow> pystr"

text \<open>\<open>str(x)\<close>, \<open>x or ''\<close> and the truth value of an optional string.\<close>

definition py_str :: "pystr option \<Rightarrow> pystr" where
  "py_str x = (case x of None \<Rightarrow> lit ''None'' | Some s \<Rightarrow> s)"

definition or_empty :: "pystr option \<Rightarrow> pystr" where
  "or_empty x = (case x of None \<Rightarrow> [] | Some s \<Rightarrow> s)"

definition truthy :: "pystr option \<Rightarrow> bool" where
  "truthy x \<longleftrightarrow> x \<noteq> None \<and> x \<noteq> Some []"

text \<open>Step 1: find the customer by (external id, platform), or create it; else refresh it.\<close>

definition resolve_customer ::
  "nat \<Rightarrow> database \<Rightarrow> pystr \<Rightarrow> pystr \<Rightarrow> pystr \<Rightarrow> pystr option \<Rightarrow> customer \<times> database" where
  "resolve_customer now db pf ext name profile_image =
     (case find (\<lambda>c. customer_external_id c = ext \<and> customer_platform c = pf) (customers db) of
        None \<Rightarrow>
          (let c = \<lparr>customer_id = next_id (map customer_id (customers db)),
                    customer_external_id = ext, customer_platform = pf,
                    customer_name = Some (if name \<noteq> [] then name else pf @ lit ''_user''),
                    customer_profile_image = profile_image,
                    customer_created_at = now, customer_updated_at = now\<rparr>
           in (c, db\<lparr>customers := customers db @ [c]\<rparr>))
      | Some c \<Rightarrow>
          (let new_name = (name \<noteq> [] \<and> py_str (customer_name c) \<noteq> name);
               new_image = (truthy profile_image \<and>
                            Some (or_empty (customer_profile_image c)) \<noteq> profile_image);
               c' = c\<lparr>customer_name := (if new_name then Some name else customer_name c),
                      customer_profile_image :=
                        (if new_image then profile_image else customer_profile_image c),
                      customer_updated_at := now\<rparr>
           in if new_name \<or> new_image
              then (c', db\<lparr>customers :=
                            map (\<lambda>x. if customer_id x = customer_id c then c' else x)
                                (customers db)\<rparr>)
              else (c, db)))"

text \<open>
  Step 2: find the conversation by customer and channel (the query has no condition on
  the status), or create an open one and try to assign an agent; else refresh its
  profile fields. The result is the id of the conversation.
\<close>

definition resolve_conversation ::
  "nat \<Rightarrow> database \<Rightarrow> int \<Rightarrow> pystr \<Rightarrow> pystr \<Rightarrow> pystr option \<Rightarrow> (error + int) \<times> database" where
  "resolve_conversation now db cust pf name profile_image =
     (case find (\<lambda>c. conv_customer_id c = cust \<and> channel_type c = Some pf) (conversations db) of
        None \<Rightarrow>
          (let cid = next_id (map conv_id (conversations db));
               c = \<lparr>conv_id = cid, conv_customer_id = cust, channel_type = Some pf,
                    conv_status = Some (lit ''open''), assigned_agent_id = None,
                    assigned_at = None, priority = Some 0, unread_count = Some 0,
                    last_message_at = None, profile_name = Some name,
                    conv_profile_image = profile_image,
                    conv_created_at = now, conv_updated_at = now\<rparr>;
               db1 = db\<lparr>conversations := conversations db @ [c]\<rparr>
           in case assign_agent_to_conversation db1 cid now of
                Inl e \<Rightarrow> (Inl e, db1)
              | Inr (assigned, db2) \<Rightarrow> (Inr cid, db2))
      | Some c \<Rightarrow>
          (let new_name = (name \<noteq> [] \<and> or_empty (profile_name c) \<noteq> name);
               new_image = (truthy profile_image \<and>
                            Some (or_empty (conv_profile_image c)) \<noteq> profile_image)
           in if new_name \<or> new_image
              then (Inr (conv_id c),
                    update_conversation (conv_id c)
                      (\<lambda>x. x\<lparr>profile_name := (if new_name then Some name else profile_name x),
                             conv_profile_image :=
                               (if new_image then profile_image else conv_profile_image x)\<rparr>)
                      now db)
              else (Inr (conv_id c), db)))"

text \<open>Steps 3 and 4: append the customer's message, bump the conversation.\<close>

definition store_message ::
  "nat \<Rightarrow> database \<Rightarrow> int \<Rightarrow> pystr \<Rightarrow> pystr \<Rightarrow> message \<times> database" where
  "store_message now db cid pf text =
     (let msg = \<lparr>msg_id = next_id (map msg_id (messages db)), conversation_id = cid,
                 sender_type = Some (lit ''customer''), sender_id = None, content = text,
                 message_type = Some (lit ''text''), msg_status = Some (lit ''received''),
                 channel = Some pf, msg_created_at = now\<rparr>;
          db1 = db\<lparr>messages := messages db @ [msg]\<rparr>
      in (msg,
          update_conversation cid
            (\<lambda>c. c\<lparr>last_message_at := Some now,
                   unread_count :=
                     Some ((case unread_count c of None \<Rightarrow> 0 | Some n \<Rightarrow> n) + 1)\<rparr>)
            now db1))"

text \<open>
  The history query: the ten newest messages of the conversation, oldest first (rows
  with equal \<open>created_at\<close> in table order).
\<close>

definition history_list :: "database \<Rightarrow> int \<Rightarrow> history_entry list" where
  "history_list db cid =
     map (\<lambda>h. \<lparr>h_sender_type = sender_type h, h_content = content h\<rparr>)
       (rev (take 10 (rev (sort_key msg_created_at
          (filter (\<lambda>m. conversation_id m = cid) (messages db))))))"

text \<open>
  Step 5: the decision \<open>should_auto_respond or ollama_chatbot.should_auto_respond(message)\<close>
  and, when it is true, the reply. The result is \<open>ai_response\<close>: \<open>None\<close> when no reply
  was asked for.
\<close>

definition auto_respond_decision :: "env \<Rightarrow> database \<Rightarrow> pystr \<Rightarrow> error + bool" where
  "auto_respond_decision e db text =
     (case bh_should_auto_respond db (local_weekday e) (local_time e) of
        Inl err \<Rightarrow> Inl err
      | Inr should_auto_respond \<Rightarrow> Inr (should_auto_respond \<or> ollama_should_auto_respond text))"

definition auto_reply ::
  "env \<Rightarrow> database \<Rightarrow> int \<Rightarrow> pystr \<Rightarrow> pystr \<Rightarrow> (error + pystr option) \<times> database" where
  "auto_reply e db cid pf text =
     (case auto_respond_decision e db text of
        Inl err \<Rightarrow> (Inl err, db)
      | Inr False \<Rightarrow> (Inr None, db)
      | Inr True \<Rightarrow>
          (let ai_response =
                 get_response (ollama_chatbot e) text (history_list db cid)
                   (get_context_for_query e text)
           in if ai_response \<noteq> []
              then (Inr (Some ai_response),
                    db\<lparr>messages := messages db @
                         [\<lparr>msg_id = next_id (map msg_id (messages db)), conversation_id = cid,
                           sender_type = Some (lit ''bot''), sender_id = None,
                           content = ai_response, message_type = Some (lit ''text''),
                           msg_status = Some (lit ''sent''), channel = Some pf,
                           msg_created_at = utcnow e\<rparr>]\<rparr>)
              else (Inr (Some ai_response), db)))"

text \<open>
  \<open>process_incoming_message\<close>. Every step commits, so an exception leaves the database
  as the steps before it made it. The last step is the broadcast to the agents.
\<close>

record outcome =
  out_conversation_id :: int
  ai_responded :: bool

definition process_incoming_message ::
  "env \<Rightarrow> database \<times> manager \<Rightarrow> pystr \<Rightarrow> pystr \<Rightarrow> pystr \<Rightarrow> pystr \<Rightarrow> pystr option \<Rightarrow>
     (error + outcome) \<times> database \<times> manager" where
  "process_incoming_message e st pf ext name text profile_image =
     (let db = fst st; mgr = snd st;
          r1 = resolve_customer (utcnow e) db pf ext name profile_image;
          cust = fst r1;
          r2 = resolve_conversation (utcnow e) (snd r1) (customer_id cust) pf name profile_image
      in case fst r2 of
           Inl err \<Rightarrow> (Inl err, snd r2, mgr)
         | Inr cid \<Rightarrow>
             (let r3 = store_message (utcnow e) (snd r2) cid pf text;
                  msg = fst r3;
                  r4 = auto_reply e (snd r3) cid pf text
              in case fst r4 of
                   Inl err \<Rightarrow> (Inl err, snd r4, mgr)
                 | Inr ai_response \<Rightarrow>
                     (Inr \<lparr>out_conversation_id = cid, ai_responded = (ai_response \<noteq> None)\<rparr>,
                      snd r4,
                      broadcast_to_agents mgr
                        (NewCustomerMessage
                           \<lparr>n_conversation_id = cid, n_customer_id = customer_id cust,
                            n_customer_name = py_str (customer_name cust),
                            n_profile_image =
                              (if truthy (customer_profile_image cust)
                               then customer_profile_image cust else None),
                            n_channel = pf, n_message_id = msg_id msg,
                            n_message_content = text,
                            n_message_created_at = msg_created_at msg,
                            n_ai_responded = (ai_response \<noteq> None)\<rparr>)
                        None)))"

text \<open>
  The Kakao payload: the JSON paths that \<open>kakao_webhook\<close> reads, each absent or a
  string. \<open>or_chain\<close> is \<open>a or b or ... or default\<close>.
\<close>

record kakao_payload =
  event_type :: "pystr option"
  top_type :: "pystr option"
  user_key :: "pystr option"
  request_user_id :: "pystr option"
  event_user_id :: "pystr option"
  sender_user_id :: "pystr option"
  top_content :: "pystr option"
  utterance :: "pystr option"
  message_text :: "pystr option"
  top_user_name :: "pystr option"
  nickname :: "pystr option"
  plusfriend_user_key :: "pystr option"
  profile_image_url :: "pystr option"

fun or_chain :: "pystr option list \<Rightarrow> pystr \<Rightarrow> pystr" where
  "or_chain [] d = d"
| "or_chain (x # xs) d = (if truthy x then or_empty x else or_chain xs d)"

text \<open>
  \<open>kakao_webhook\<close>, as far as it touches the database and the connection manager: the
  leave event closes the customer's open conversation; any other event with a user id
  and a message text goes to \<open>process_incoming_message\<close>. The HTTP response, computed
  afterwards by \<open>process_kakao_message\<close> without writing to either, is left out.
\<close>

definition kakao_webhook ::
  "env \<Rightarrow> database \<times> manager \<Rightarrow> kakao_payload \<Rightarrow> error option \<times> database \<times> manager" where
  "kakao_webhook e st payload =
     (let db = fst st; mgr = snd st;
          etype = or_chain [event_type payload, top_type payload] []
      in if etype = lit ''leave'' \<or> etype = lit ''end_chat''
         then
           (let user_id = or_chain [user_key payload, request_user_id payload,
                                    event_user_id payload] []
            in if user_id \<noteq> []
               then
                 (case find (\<lambda>c. conv_status c = Some (lit ''open'') \<and>
                               list_ex (\<lambda>cu. customer_id cu = conv_customer_id c \<and>
                                             customer_external_id cu = user_id \<and>
                                             customer_platform cu = lit ''kakao'')
                                       (customers db))
                            (conversations db) of
                    None \<Rightarrow> (None, db, mgr)
                  | Some c \<Rightarrow>
                      (None,
                       update_conversation (conv_id c)
                         (\<lambda>x. x\<lparr>conv_status := Some (lit ''closed'')\<rparr>) (utcnow e) db,
                       broadcast_to_agents mgr (ConversationEnded (conv_id c)) None))
               else (None, db, mgr))
         else
           (let user_message = or_chain [top_content payload, utterance payload,
                                         message_text payload] [];
                user_id = or_chain [user_key payload, request_user_id payload,
                                    sender_user_id payload] [];
                user_name = or_chain [top_user_name payload, nickname payload,
                                      plusfriend_user_key payload] (lit ''Kakao User'');
                profile_image = (if truthy (profile_image_url payload)
                                 then profile_image_url payload else None)
            in if user_id \<noteq> [] \<and> user_message \<noteq> []
               then
                 (case process_incoming_message e st (lit ''kakao'') user_id user_name
                         user_message profile_image of
                    (Inl err, st') \<Rightarrow> (Some err, st')
                  | (Inr ok, st') \<Rightarrow> (None, st'))
               else (None, db, mgr)))"

section \<open>Sample states\<close>

text \<open>Concrete rows and databases on which the theorems below are instantiated.\<close>

text \<open>
  A user who is active and open to automatic assignment, with the given id, role,
  status and capacity; a conversation with the given id, customer, channel, status and
  assigned agent.
\<close>

definition mk_agent :: "int \<Rightarrow> pystr \<Rightarrow> pystr \<Rightarrow> int option \<Rightarrow> user" where
  "mk_agent i r st cap =
     \<lparr>user_id = i, user_name = None, user_email = lit ''a@example.com'', role = Some r,
      is_active = Some True, user_status = Some st, auto_assign = Some True,
      max_concurrent_chats = cap\<rparr>"

definition mk_conv :: "int \<Rightarrow> int \<Rightarrow> pystr \<Rightarrow> pystr \<Rightarrow> int option \<Rightarrow> conversation" where
  "mk_conv i cust ch st a =
     \<lparr>conv_id = i, conv_customer_id = cust, channel_type = Some ch, conv_status = Some st,
      assigned_agent_id = a, assigned_at = None, priority = Some 0, unread_count = Some 0,
      last_message_at = None, profile_name = None, conv_profile_image = None,
      conv_created_at = 0, conv_updated_at = 0\<rparr>"

definition empty_db :: database where
  "empty_db = \<lparr>users = [], customers = [], conversations = [], messages = [], business_hours = []\<rparr>"

text \<open>
  A team of three agents and an administrator. Agent 1 is at its capacity of three open
  conversations, agent 2 has one of five, agent 4 has none of two; conversation 6 is
  not assigned.
\<close>

definition team_db :: database where
  "team_db = empty_db
     \<lparr>users := [mk_agent 1 (lit ''agent'') (lit ''online'') (Some 3),
                 mk_agent 2 (lit ''agent'') (lit ''online'') (Some 5),
                 mk_agent 3 (lit ''admin'') (lit ''online'') (Some 5),
                 mk_agent 4 (lit ''agent'') (lit ''online'') (Some 2)],
      conversations := [mk_conv 1 1 (lit ''kakao'') (lit ''open'') (Some 1),
                         mk_conv 2 2 (lit ''kakao'') (lit ''open'') (Some 1),
                         mk_conv 3 3 (lit ''kakao'') (lit ''open'') (Some 1),
                         mk_conv 4 4 (lit ''kakao'') (lit ''open'') (Some 2),
                         mk_conv 5 5 (lit ''kakao'') (lit ''closed'') (Some 2),
                         mk_conv 6 6 (lit ''kakao'') (lit ''open'') None]\<rparr>"

definition team_available :: "avail list" where
  "team_available =
     [\<lparr>agent = mk_agent 4 (lit ''agent'') (lit ''online'') (Some 2), current_load = 0, capacity = 2\<rparr>,
      \<lparr>agent = mk_agent 2 (lit ''agent'') (lit ''online'') (Some 5), current_load = 1, capacity = 5\<rparr>]"

definition team_assigned :: database where
  "team_assigned =
     update_conversation 6
       (\<lambda>c. c\<lparr>assigned_agent_id := Some 4, assigned_at := Some 77,
              conv_status := Some (lit ''open'')\<rparr>) 77 team_db"

text \<open>
  The business-hours table as \<open>create_default_business_hours\<close> writes it, two wall-clock
  times, a chatbot whose model call always raises, and the requests' environments on a
  Monday.
\<close>

definition seeded_db :: database where
  "seeded_db = create_default_business_hours empty_db"

definition evening :: pytime where
  "evening = \<lparr>hour = 20, minute = 0, second = 0, microsecond = 0\<rparr>"

definition noon :: pytime where
  "noon = \<lparr>hour = 12, minute = 0, second = 0, microsecond = 0\<rparr>"

definition silent_bot :: chatbot where
  "silent_bot = \<lparr>chat_available = True, system_prompt = lit ''prompt'', ollama_chat = (\<lambda>ms. None)\<rparr>"

definition monday_evening :: env where
  "monday_evening = \<lparr>utcnow = 100, local_weekday = 0, local_time = evening,
     ollama_chatbot = silent_bot, get_context_for_query = (\<lambda>q. [])\<rparr>"

definition monday_noon :: env where
  "monday_noon = monday_evening\<lparr>local_time := noon\<rparr>"

text \<open>
  Two Korean texts as code points. The first reads "inquiry about a lawsuit over a
  contract" and holds none of the simple keywords; the second reads "urgent, how to
  link" and holds two of them. \<open>contract_keyword\<close> and \<open>urgent_keyword\<close> below are the
  words for contract and urgent.
\<close>

definition lawsuit_message :: pystr where
  "lawsuit_message = [44228, 50557, 32, 44288, 47144, 32, 49548, 49569, 32, 47928, 51032]"

definition urgent_howto_message :: pystr where
  "urgent_howto_message = [44596, 44553, 32, 50672, 46041, 32, 48169, 48277]"

definition staffed_db :: database where
  "staffed_db = seeded_db\<lparr>users := [mk_agent 1 (lit ''agent'') (lit ''online'') (Some 5)]\<rparr>"

text \<open>A manager with one registered agent whose socket is broken.\<close>

definition broken_socket :: websocket where
  "broken_socket = \<lparr>broken = True, delivered = []\<rparr>"

definition one_broken_agent :: manager where
  "one_broken_agent = [(lit ''agent_1'', broken_socket)]"

text \<open>
  The states that the Kakao requests of user \<open>u1\<close> go through on \<open>staffed_db\<close>, all
  at instant 100: the dashboard with one agent socket and one widget socket and what
  the agent socket has received, the customer row, the one conversation with its status
  and unread count, a message of that conversation, the database holding them, the
  notification of a message, and the payloads of a message and of the leave event.
\<close>

definition healthy_socket :: websocket where
  "healthy_socket = \<lparr>broken = False, delivered = []\<rparr>"

definition notified :: "payload list \<Rightarrow> manager" where
  "notified ps = [(lit ''agent_1'', \<lparr>broken = False, delivered = ps\<rparr>),
                  (lit ''widget_9'', healthy_socket)]"

definition kakao_customer :: customer where
  "kakao_customer =
     \<lparr>customer_id = 1, customer_external_id = lit ''u1'', customer_platform = lit ''kakao'',
      customer_name = Some (lit ''Kakao User''), customer_profile_image = None,
      customer_created_at = 100, customer_updated_at = 100\<rparr>"

definition kakao_conversation :: "pystr \<Rightarrow> int \<Rightarrow> conversation" where
  "kakao_conversation st n =
     \<lparr>conv_id = 1, conv_customer_id = 1, channel_type = Some (lit ''kakao''),
      conv_status = Some st, assigned_agent_id = Some 1, assigned_at = Some 100,
      priority = Some 0, unread_count = Some n,
      last_message_at = (if n = 0 then None else Some 100),
      profile_name = Some (lit ''Kakao User''), conv_profile_image = None,
      conv_created_at = 100, conv_updated_at = 100\<rparr>"

definition kakao_message :: "int \<Rightarrow> pystr \<Rightarrow> pystr \<Rightarrow> pystr \<Rightarrow> message" where
  "kakao_message i who st text =
     \<lparr>msg_id = i, conversation_id = 1, sender_type = Some who, sender_id = None,
      content = text, message_type = Some (lit ''text''), msg_status = Some st,
      channel = Some (lit ''kakao''), msg_created_at = 100\<rparr>"

definition kakao_db :: "pystr \<Rightarrow> int \<Rightarrow> message list \<Rightarrow> database" where
  "kakao_db st n ms =
     staffed_db\<lparr>customers := [kakao_customer], conversations := [kakao_conversation st n],
                messages := ms\<rparr>"

definition notice :: "int \<Rightarrow> pystr \<Rightarrow> bool \<Rightarrow> payload" where
  "notice i text ai =
     NewCustomerMessage
       \<lparr>n_conversation_id = 1, n_customer_id = 1, n_customer_name = lit ''Kakao User'',
        n_profile_image = None, n_channel = lit ''kakao'', n_message_id = i,
        n_message_content = text, n_message_created_at = 100, n_ai_responded = ai\<rparr>"

definition no_payload :: kakao_payload where
  "no_payload = \<lparr>event_type = None, top_type = None, user_key = None, request_user_id = None,
     event_user_id = None, sender_user_id = None, top_content = None, utterance = None,
     message_text = None, top_user_name = None, nickname = None, plusfriend_user_key = None,
     profile_image_url = None\<rparr>"

definition hello_payload :: "pystr \<Rightarrow> kakao_payload" where
  "hello_payload text = no_payload\<lparr>request_user_id := Some (lit ''u1''), utterance := Some text\<rparr>"

definition leave_payload :: kakao_payload where
  "leave_payload = no_payload\<lparr>event_type := Some (lit ''leave''), user_key := Some (lit ''u1'')\<rparr>"

definition contract_keyword :: pystr where
  "contract_keyword = [44228, 50557]"

definition urgent_keyword :: pystr where
  "urgent_keyword = [44596, 44553]"

text \<open>
  The team with four more users of role agent, each with room for five conversations
  and none assigned: user 5 is inactive, user 6 is offline, user 7 has automatic
  assignment switched off, user 8 has no value in \<open>is_active\<close>.
\<close>

definition roster_db :: database where
  "roster_db = team_db
     \<lparr>users := users team_db @
        [(mk_agent 5 (lit ''agent'') (lit ''online'') (Some 5))\<lparr>is_active := Some False\<rparr>,
         mk_agent 6 (lit ''agent'') (lit ''offline'') (Some 5),
         (mk_agent 7 (lit ''agent'') (lit ''online'') (Some 5))\<lparr>auto_assign := Some False\<rparr>,
         (mk_agent 8 (lit ''agent'') (lit ''online'') (Some 5))\<lparr>is_active := None\<rparr>]\<rparr>"

text \<open>The seeded table with one online agent whose \<open>max_concurrent_chats\<close> is NULL.\<close>

definition unlimited_db :: database where
  "unlimited_db = seeded_db\<lparr>users := [mk_agent 1 (lit ''agent'') (lit ''online'') None]\<rparr>"

section \<open>Properties of agent assignment\<close>

lemma lit_eq_iff [simp]: "lit a = lit b \<longleftrightarrow> a = b"
  by (simp add: lit_def inj_map_eq_map[OF inj_of_char])

lemma map_agent_annotate: "map agent (map (annotate db) xs) = xs"
  by (induction xs) (simp_all add: annotate_def)

lemma available_loop_Inr:
  "available_loop db agents acc = Inr r \<Longrightarrow>
     r = acc @ map (annotate db) (filter (under_capacity db) agents)"
proof (induction agents arbitrary: acc)
  case Nil
  then show ?case by simp
next
  case (Cons a agents)
  show ?case
  proof (cases "max_concurrent_chats a")
    case None
    with Cons.prems show ?thesis by simp
  next
    case (Some cap)
    show ?thesis
    proof (cases "current_chats db (user_id a) < cap")
      case True
      with Some Cons.prems have
        "available_loop db agents (acc @ [annotate db a]) = Inr r"
        by (simp add: annotate_def)
      from Cons.IH[OF this] True Some show ?thesis
        by (simp add: under_capacity_def)
    next
      case False
      with Some Cons.prems have "available_loop db agents acc = Inr r" by simp
      from Cons.IH[OF this] False Some show ?thesis
        by (simp add: under_capacity_def)
    qed
  qed
qed

lemma available_loop_total:
  "(\<forall>a\<in>set agents. max_concurrent_chats a \<noteq> None) \<Longrightarrow>
     \<exists>r. available_loop db agents acc = Inr r"
  by (induction agents arbitrary: acc) (auto split: option.splits)

lemma available_loop_error:
  "available_loop db agents acc = Inl e \<Longrightarrow>
     e = TypeError \<and> (\<exists>a\<in>set agents. max_concurrent_chats a = None)"
  by (induction agents arbitrary: acc) (auto split: option.splits if_splits)

lemma get_available_agents_Inr:
  assumes "get_available_agents db = Inr av"
  shows "av = sort_key current_load
                (map (annotate db) (filter (under_capacity db) (filter in_pool (users db))))"
  using assms available_loop_Inr[of db "filter in_pool (users db)" "[]"]
  by (auto simp: get_available_agents_def Let_def split: sum.splits)

lemma get_available_agents_total:
  assumes "\<forall>u\<in>set (users db). in_pool u \<longrightarrow> max_concurrent_chats u \<noteq> None"
  shows "\<exists>av. get_available_agents db = Inr av"
proof -
  from assms have "\<forall>a\<in>set (filter in_pool (users db)). max_concurrent_chats a \<noteq> None"
    by simp
  from available_loop_total[OF this, of db "[]"] show ?thesis
    by (auto simp: get_available_agents_def Let_def)
qed

lemma available_entry:
  assumes "get_available_agents db = Inr av" and "e \<in> set av"
  shows "in_pool (agent e) \<and> agent e \<in> set (users db) \<and> under_capacity db (agent e) \<and>
         e = annotate db (agent e)"
  using assms(2) unfolding get_available_agents_Inr[OF assms(1)]
  by (auto simp: annotate_def)

lemma get_conversation_update:
  assumes "\<And>c. conv_id (f c) = conv_id c"
  shows "get_conversation (update_conversation cid f now db) cid =
         map_option (\<lambda>c. (f c)\<lparr>conv_updated_at := now\<rparr>) (get_conversation db cid)"
proof -
  have "find (\<lambda>c. conv_id c = cid)
          (map (\<lambda>c. if conv_id c = cid then (f c)\<lparr>conv_updated_at := now\<rparr> else c) xs) =
        map_option (\<lambda>c. (f c)\<lparr>conv_updated_at := now\<rparr>) (find (\<lambda>c. conv_id c = cid) xs)" for xs
    by (induction xs) (simp_all add: assms)
  then show ?thesis
    by (simp add: get_conversation_def update_conversation_def)
qed

text \<open>
  Claim C6. Automatic assignment never picks an agent at or over capacity: every entry
  that \<open>get_available_agents\<close> returns carries the agent's count of open conversations
  and its \<open>max_concurrent_chats\<close>, with the count strictly below the capacity; and when
  \<open>assign_agent_to_conversation\<close> assigns a so far unassigned conversation, the agent
  it writes into the conversation is a user whose count of open conversations, taken
  in the database before the call, is strictly below its capacity.
\<close>

theorem assignment_respects_capacity:
  "(get_available_agents db = Inr av \<longrightarrow>
      (\<forall>e\<in>set av. current_load e < capacity e \<and>
                   current_load e = current_chats db (user_id (agent e)) \<and>
                   max_concurrent_chats (agent e) = Some (capacity e))) \<and>
   (get_conversation db cid = Some c \<and> assigned_agent_id c = None \<and>
    assign_agent_to_conversation db cid now = Inr (True, db') \<longrightarrow>
      (\<exists>u\<in>set (users db). \<exists>cap c'.
          get_conversation db' cid = Some c' \<and> assigned_agent_id c' = Some (user_id u) \<and>
          max_concurrent_chats u = Some cap \<and> current_chats db (user_id u) < cap))"
proof (intro conjI impI)
  assume av: "get_available_agents db = Inr av"
  show "\<forall>e\<in>set av. current_load e < capacity e \<and>
                   current_load e = current_chats db (user_id (agent e)) \<and>
                   max_concurrent_chats (agent e) = Some (capacity e)"
  proof
    fix e assume "e \<in> set av"
    from available_entry[OF av this] show "current_load e < capacity e \<and>
                   current_load e = current_chats db (user_id (agent e)) \<and>
                   max_concurrent_chats (agent e) = Some (capacity e)"
      by (cases e) (auto simp: annotate_def under_capacity_def)
  qed
next
  assume a: "get_conversation db cid = Some c \<and> assigned_agent_id c = None \<and>
    assign_agent_to_conversation db cid now = Inr (True, db')"
  then obtain sel rest where av: "get_available_agents db = Inr (sel # rest)"
    and db': "db' = update_conversation cid
                 (\<lambda>c. c\<lparr>assigned_agent_id := Some (user_id (agent sel)),
                        assigned_at := Some now, conv_status := Some (lit ''open'')\<rparr>) now db"
    by (auto simp: assign_agent_to_conversation_def split: sum.splits list.splits)
  from available_entry[OF av, of sel]
  have u: "agent sel \<in> set (users db)" and cap: "under_capacity db (agent sel)" by simp_all
  from a have "get_conversation db' cid =
      Some (c\<lparr>assigned_agent_id := Some (user_id (agent sel)),
              assigned_at := Some now, conv_status := Some (lit ''open''), conv_updated_at := now\<rparr>)"
    unfolding db' by (subst get_conversation_update) simp_all
  with u cap show "\<exists>u\<in>set (users db). \<exists>cap c'.
          get_conversation db' cid = Some c' \<and> assigned_agent_id c' = Some (user_id u) \<and>
          max_concurrent_chats u = Some cap \<and> current_chats db (user_id u) < cap"
    unfolding under_capacity_def by (intro bexI[of _ "agent sel"]) auto
qed

text \<open>
  Claim C7. The list returned by \<open>get_available_agents\<close> holds exactly the users whose
  role is agent, whose \<open>is_active\<close> is true, whose status is online and whose
  \<open>auto_assign\<close> is true, and whose number of open conversations assigned to them is
  strictly below \<open>max_concurrent_chats\<close> (each such row once); every entry carries that
  number as \<open>current_load\<close> and that capacity as \<open>capacity\<close>; the list is sorted by
  ascending load, and entries of equal load keep the order of the users table. The
  conditions are written out on the columns.
\<close>

theorem available_agents_characterisation:
  assumes "get_available_agents db = Inr av"
  shows "mset (map agent av) =
           mset (filter
             (\<lambda>u. role u = Some (lit ''agent'') \<and> is_active u = Some True \<and>
                  user_status u = Some (lit ''online'') \<and> auto_assign u = Some True \<and>
                  (\<exists>cap. max_concurrent_chats u = Some cap \<and>
                     int (length (filter (\<lambda>c. assigned_agent_id c = Some (user_id u) \<and>
                                              conv_status c = Some (lit ''open''))
                                         (conversations db))) < cap))
             (users db)) \<and>
         (\<forall>e\<in>set av.
            current_load e =
              int (length (filter (\<lambda>c. assigned_agent_id c = Some (user_id (agent e)) \<and>
                                       conv_status c = Some (lit ''open''))
                                  (conversations db))) \<and>
            max_concurrent_chats (agent e) = Some (capacity e)) \<and>
         sorted (map current_load av) \<and>
         (\<forall>k. map agent (filter (\<lambda>e. current_load e = k) av) =
              filter
                (\<lambda>u. role u = Some (lit ''agent'') \<and> is_active u = Some True \<and>
                     user_status u = Some (lit ''online'') \<and> auto_assign u = Some True \<and>
                     (\<exists>cap. max_concurrent_chats u = Some cap \<and>
                        int (length (filter (\<lambda>c. assigned_agent_id c = Some (user_id u) \<and>
                                                 conv_status c = Some (lit ''open''))
                                            (conversations db))) < cap) \<and>
                     int (length (filter (\<lambda>c. assigned_agent_id c = Some (user_id u) \<and>
                                              conv_status c = Some (lit ''open''))
                                         (conversations db))) = k)
                (users db))"
proof -
  let ?xs = "map (annotate db) (filter (under_capacity db) (filter in_pool (users db)))"
  have av: "av = sort_key current_load ?xs" by (rule get_available_agents_Inr[OF assms])
  have 1: "mset (map agent av) = mset (filter (\<lambda>u. in_pool u \<and> under_capacity db u) (users db))"
  proof -
    have "mset (map agent av) = image_mset agent (mset ?xs)"
      unfolding av by (simp only: mset_map mset_sort)
    also have "\<dots> = mset (map agent ?xs)" by (simp only: mset_map)
    also have "map agent ?xs = filter (under_capacity db) (filter in_pool (users db))"
      by (rule map_agent_annotate)
    finally show ?thesis by (simp add: conj_commute)
  qed
  have 2: "\<forall>e\<in>set av. current_load e = current_chats db (user_id (agent e)) \<and>
                 max_concurrent_chats (agent e) = Some (capacity e)"
    unfolding av by (auto simp: annotate_def under_capacity_def)
  have 3: "sorted (map current_load av)" unfolding av by simp
  have 4: "map agent (filter (\<lambda>e. current_load e = k) av) =
         filter (\<lambda>u. in_pool u \<and> under_capacity db u \<and> current_chats db (user_id u) = k)
                (users db)" for k
  proof -
    have "map agent (filter (\<lambda>e. current_load e = k) av) =
          map agent (filter (\<lambda>e. current_load e = k) ?xs)"
      unfolding av sort_key_stable ..
    also have "\<dots> = map agent (map (annotate db)
        (filter (\<lambda>u. current_chats db (user_id u) = k)
           (filter (under_capacity db) (filter in_pool (users db)))))"
      by (simp add: filter_map comp_def annotate_def)
    also have "\<dots> = filter (\<lambda>u. current_chats db (user_id u) = k)
                        (filter (under_capacity db) (filter in_pool (users db)))"
      by (rule map_agent_annotate)
    finally show ?thesis by (simp add: conj_commute conj_left_commute)
  qed
  from 1 2 3 4 show ?thesis
    unfolding in_pool_def under_capacity_def current_chats_def conj_assoc by blast
qed

text \<open>
  Claim C8. On a conversation that already has an assigned agent,
  \<open>assign_agent_to_conversation\<close> returns \<open>True\<close> and leaves the whole database as it
  was: assigned agent, assignment time and status included.
\<close>

theorem assign_idempotent:
  assumes "get_conversation db cid = Some c" and "assigned_agent_id c \<noteq> None"
  shows "assign_agent_to_conversation db cid now = Inr (True, db)"
  using assms by (simp add: assign_agent_to_conversation_def)

lemma assign_twice:
  assumes "assign_agent_to_conversation db cid now = Inr (True, db')"
  shows "assign_agent_to_conversation db' cid now' = Inr (True, db')"
proof -
  from assms obtain c where c: "get_conversation db cid = Some c"
    by (auto simp: assign_agent_to_conversation_def split: option.splits)
  show ?thesis
  proof (cases "assigned_agent_id c")
    case (Some a)
    with assms c have "db' = db" by (simp add: assign_agent_to_conversation_def)
    with c Some show ?thesis by (simp add: assign_agent_to_conversation_def)
  next
    case None
    with assms c obtain sel :: avail where db': "db' = update_conversation cid
                 (\<lambda>c. c\<lparr>assigned_agent_id := Some (user_id (agent sel)),
                        assigned_at := Some now, conv_status := Some (lit ''open'')\<rparr>) now db"
      by (auto simp: assign_agent_to_conversation_def split: sum.splits list.splits)
    have "get_conversation db' cid =
      Some (c\<lparr>assigned_agent_id := Some (user_id (agent sel)),
              assigned_at := Some now, conv_status := Some (lit ''open''), conv_updated_at := now\<rparr>)"
      unfolding db' using c by (subst get_conversation_update) simp_all
    then show ?thesis by (simp add: assign_agent_to_conversation_def)
  qed
qed

text \<open>
  Claim C10. \<open>reassign_agent\<close> returns \<open>False\<close> and changes nothing when the
  conversation does not exist or no user with the given id and role agent exists; when
  both exist it returns \<open>True\<close> and overwrites the assigned agent and the assignment
  time, with no look at the agent's load.
\<close>

theorem reassign_requires_agent_target:
  "(get_conversation db cid = None \<or>
    \<not> list_ex (\<lambda>u. user_id u = nid \<and> role u = Some (lit ''agent'')) (users db) \<longrightarrow>
      reassign_agent db cid nid now = (False, db)) \<and>
   (get_conversation db cid = Some c \<and>
    list_ex (\<lambda>u. user_id u = nid \<and> role u = Some (lit ''agent'')) (users db) \<longrightarrow>
      reassign_agent db cid nid now =
        (True, update_conversation cid
                 (\<lambda>c. c\<lparr>assigned_agent_id := Some nid, assigned_at := Some now\<rparr>) now db) \<and>
      get_conversation (snd (reassign_agent db cid nid now)) cid =
        Some (c\<lparr>assigned_agent_id := Some nid, assigned_at := Some now, conv_updated_at := now\<rparr>))"
proof -
  have ex: "list_ex P xs \<longleftrightarrow> find P xs \<noteq> None" for P :: "user \<Rightarrow> bool" and xs
    by (auto simp: list_ex_iff find_None_iff)
  show ?thesis
    unfolding ex
    by (auto simp: reassign_agent_def get_conversation_update split: option.splits)
qed

lemma team_load_1: "current_chats team_db 1 = 3"
  by (simp add: current_chats_def team_db_def empty_db_def mk_conv_def)

lemma team_load_2: "current_chats team_db 2 = 1"
  by (simp add: current_chats_def team_db_def empty_db_def mk_conv_def)

lemma team_load_4: "current_chats team_db 4 = 0"
  by (simp add: current_chats_def team_db_def empty_db_def mk_conv_def)

lemma team_pool:
  "filter in_pool (users team_db) =
     [mk_agent 1 (lit ''agent'') (lit ''online'') (Some 3),
      mk_agent 2 (lit ''agent'') (lit ''online'') (Some 5),
      mk_agent 4 (lit ''agent'') (lit ''online'') (Some 2)]"
  by (simp add: team_db_def empty_db_def in_pool_def mk_agent_def)

lemma team_get_available: "get_available_agents team_db = Inr team_available"
  unfolding get_available_agents_def team_pool Let_def team_available_def
  by (simp add: team_load_1 team_load_2 team_load_4 mk_agent_def)

lemma team_conv_6:
  "get_conversation team_db 6 = Some (mk_conv 6 6 (lit ''kakao'') (lit ''open'') None)"
  by (simp add: get_conversation_def team_db_def empty_db_def mk_conv_def)

lemma team_conv_1:
  "get_conversation team_db 1 = Some (mk_conv 1 1 (lit ''kakao'') (lit ''open'') (Some 1))"
  by (simp add: get_conversation_def team_db_def empty_db_def mk_conv_def)

lemma team_assign: "assign_agent_to_conversation team_db 6 77 = Inr (True, team_assigned)"
  unfolding assign_agent_to_conversation_def team_conv_6 team_get_available team_assigned_def
  by (simp add: mk_conv_def mk_agent_def team_available_def)

theorem assignment_respects_capacity_witness:
  "get_available_agents team_db = Inr team_available \<and>
   list_all (\<lambda>e. current_load e < capacity e \<and>
        current_load e = current_chats team_db (user_id (agent e)) \<and>
        max_concurrent_chats (agent e) = Some (capacity e)) team_available \<and>
   get_conversation team_db 6 = Some (mk_conv 6 6 (lit ''kakao'') (lit ''open'') None) \<and>
   assigned_agent_id (mk_conv 6 6 (lit ''kakao'') (lit ''open'') None) = None \<and>
   assign_agent_to_conversation team_db 6 77 = Inr (True, team_assigned) \<and>
   (\<exists>u\<in>set (users team_db). \<exists>cap c'.
       get_conversation team_assigned 6 = Some c' \<and> assigned_agent_id c' = Some (user_id u) \<and>
       max_concurrent_chats u = Some cap \<and> current_chats team_db (user_id u) < cap)"
proof -
  have unassigned: "assigned_agent_id (mk_conv 6 6 (lit ''kakao'') (lit ''open'') None) = None"
    by (simp add: mk_conv_def)
  from assignment_respects_capacity
         [of team_db team_available 6 "mk_conv 6 6 (lit ''kakao'') (lit ''open'') None" 77
             team_assigned]
       team_get_available team_conv_6 unassigned team_assign
  show ?thesis unfolding list_all_iff by blast
qed

text \<open>
  The theorem for claim C7 on the larger team: users 3, 5, 6, 7 and 8 each fail one of
  the four conditions of the pool, user 1 is at capacity, and users 4 and 2 are
  returned in the order of their loads.
\<close>

lemma roster_load: "current_chats roster_db i = current_chats team_db i"
  by (simp add: current_chats_def roster_db_def)

lemma roster_pool:
  "filter in_pool (users roster_db) =
     [mk_agent 1 (lit ''agent'') (lit ''online'') (Some 3),
      mk_agent 2 (lit ''agent'') (lit ''online'') (Some 5),
      mk_agent 4 (lit ''agent'') (lit ''online'') (Some 2)]"
  by (simp add: roster_db_def team_db_def empty_db_def in_pool_def mk_agent_def)

lemma roster_get_available: "get_available_agents roster_db = Inr team_available"
  unfolding get_available_agents_def roster_pool Let_def team_available_def
  by (simp add: roster_load team_load_1 team_load_2 team_load_4 mk_agent_def)

lemma roster_ids: "map user_id (users roster_db) = [1, 2, 3, 4, 5, 6, 7, 8]"
  by (simp add: roster_db_def team_db_def empty_db_def mk_agent_def)

lemma roster_places:
  "map (\<lambda>u. (user_id u, role u = Some (lit ''agent''), is_active u = Some True,
              user_status u = Some (lit ''online''), auto_assign u = Some True,
              max_concurrent_chats u, current_chats roster_db (user_id u)))
       (users roster_db) =
     [(1, True, True, True, True, Some 3, 3),
      (2, True, True, True, True, Some 5, 1),
      (3, False, True, True, True, Some 5, 0),
      (4, True, True, True, True, Some 2, 0),
      (5, True, False, True, True, Some 5, 0),
      (6, True, True, False, True, Some 5, 0),
      (7, True, True, True, False, Some 5, 0),
      (8, True, False, True, True, Some 5, 0)]"
  by (simp add: roster_load team_load_1 team_load_2 team_load_4)
     (simp add: roster_db_def team_db_def empty_db_def mk_agent_def current_chats_def mk_conv_def)

theorem available_agents_characterisation_witness:
  "map (\<lambda>u. (user_id u, role u = Some (lit ''agent''), is_active u = Some True,
              user_status u = Some (lit ''online''), auto_assign u = Some True,
              max_concurrent_chats u, current_chats roster_db (user_id u)))
       (users roster_db) =
     [(1, True, True, True, True, Some 3, 3),
      (2, True, True, True, True, Some 5, 1),
      (3, False, True, True, True, Some 5, 0),
      (4, True, True, True, True, Some 2, 0),
      (5, True, False, True, True, Some 5, 0),
      (6, True, True, False, True, Some 5, 0),
      (7, True, True, True, False, Some 5, 0),
      (8, True, False, True, True, Some 5, 0)] \<and>
   get_available_agents roster_db = Inr team_available \<and>
   map (\<lambda>e. (user_id (agent e), current_load e, capacity e)) team_available =
     [(4, 0, 2), (2, 1, 5)] \<and>
   mset (map agent team_available) =
     mset (filter
       (\<lambda>u. role u = Some (lit ''agent'') \<and> is_active u = Some True \<and>
            user_status u = Some (lit ''online'') \<and> auto_assign u = Some True \<and>
            (\<exists>cap. max_concurrent_chats u = Some cap \<and>
               int (length (filter (\<lambda>c. assigned_agent_id c = Some (user_id u) \<and>
                                        conv_status c = Some (lit ''open''))
                                   (conversations roster_db))) < cap))
       (users roster_db)) \<and>
   list_all
     (\<lambda>e. current_load e =
            int (length (filter (\<lambda>c. assigned_agent_id c = Some (user_id (agent e)) \<and>
                                     conv_status c = Some (lit ''open''))
                                (conversations roster_db))) \<and>
          max_concurrent_chats (agent e) = Some (capacity e))
     team_available \<and>
   sorted (map current_load team_available) \<and>
   (\<forall>k. map agent (filter (\<lambda>e. current_load e = k) team_available) =
        filter
          (\<lambda>u. role u = Some (lit ''agent'') \<and> is_active u = Some True \<and>
               user_status u = Some (lit ''online'') \<and> auto_assign u = Some True \<and>
               (\<exists>cap. max_concurrent_chats u = Some cap \<and>
                  int (length (filter (\<lambda>c. assigned_agent_id c = Some (user_id u) \<and>
                                           conv_status c = Some (lit ''open''))
                                      (conversations roster_db))) < cap) \<and>
               int (length (filter (\<lambda>c. assigned_agent_id c = Some (user_id u) \<and>
                                        conv_status c = Some (lit ''open''))
                                   (conversations roster_db))) = k)
          (users roster_db))"
proof -
  have shape: "map (\<lambda>e. (user_id (agent e), current_load e, capacity e)) team_available =
     [(4, 0, 2), (2, 1, 5)]"
    by (simp add: team_available_def mk_agent_def)
  from available_agents_characterisation[OF roster_get_available] roster_get_available
       roster_places shape
  show ?thesis unfolding list_all_iff by blast
qed

theorem assign_idempotent_witness:
  "get_conversation team_db 1 = Some (mk_conv 1 1 (lit ''kakao'') (lit ''open'') (Some 1)) \<and>
   assigned_agent_id (mk_conv 1 1 (lit ''kakao'') (lit ''open'') (Some 1)) \<noteq> None \<and>
   assign_agent_to_conversation team_db 1 77 = Inr (True, team_db)"
proof -
  have assigned: "assigned_agent_id (mk_conv 1 1 (lit ''kakao'') (lit ''open'') (Some 1)) \<noteq> None"
    by (simp add: mk_conv_def)
  from assign_idempotent[OF team_conv_1 assigned, of 77] team_conv_1 assigned
  show ?thesis by blast
qed

lemma team_no_user_9:
  "\<not> list_ex (\<lambda>u. user_id u = 9 \<and> role u = Some (lit ''agent'')) (users team_db)"
  by (simp add: team_db_def empty_db_def mk_agent_def)

lemma team_admin_3:
  "\<not> list_ex (\<lambda>u. user_id u = 3 \<and> role u = Some (lit ''agent'')) (users team_db)"
  by (simp add: team_db_def empty_db_def mk_agent_def)

lemma team_agent_1:
  "list_ex (\<lambda>u. user_id u = 1 \<and> role u = Some (lit ''agent'')) (users team_db)"
  by (simp add: team_db_def empty_db_def mk_agent_def)

theorem reassign_requires_agent_target_witness:
  "reassign_agent team_db 6 9 77 = (False, team_db) \<and>
   reassign_agent team_db 6 3 77 = (False, team_db) \<and>
   current_chats team_db 1 = 3 \<and>
   reassign_agent team_db 6 1 77 =
     (True, update_conversation 6
              (\<lambda>c. c\<lparr>assigned_agent_id := Some 1, assigned_at := Some 77\<rparr>) 77 team_db) \<and>
   get_conversation (snd (reassign_agent team_db 6 1 77)) 6 =
     Some ((mk_conv 6 6 (lit ''kakao'') (lit ''open'') None)
             \<lparr>assigned_agent_id := Some 1, assigned_at := Some 77, conv_updated_at := 77\<rparr>)"
  using reassign_requires_agent_target
          [of team_db 6 9 77 "mk_conv 6 6 (lit ''kakao'') (lit ''open'') None"]
        reassign_requires_agent_target
          [of team_db 6 3 77 "mk_conv 6 6 (lit ''kakao'') (lit ''open'') None"]
        reassign_requires_agent_target
          [of team_db 6 1 77 "mk_conv 6 6 (lit ''kakao'') (lit ''open'') None"]
        team_no_user_9 team_admin_3 team_agent_1 team_conv_6 team_load_1
  by blast

section \<open>Properties of business hours and of the auto-response decision\<close>

lemma seeded_rows: "business_hours seeded_db = map (default_row 1) [0, 1, 2, 3, 4, 5, 6]"
  by (simp add: seeded_db_def create_default_business_hours_def empty_db_def next_id_def)

lemma digit_value_ascii: "48 \<le> c \<Longrightarrow> c < 58 \<Longrightarrow> digit_value c = Some (c - 48)"
  by (simp add: digit_value_def decimal_zeros_def)

lemma strptime_0900:
  "strptime_HM (lit ''09:00'') = Some \<lparr>hour = 9, minute = 0, second = 0, microsecond = 0\<rparr>"
  by (simp add: strptime_HM_def lit_def digit_value_ascii)

lemma strptime_1800:
  "strptime_HM (lit ''18:00'') = Some \<lparr>hour = 18, minute = 0, second = 0, microsecond = 0\<rparr>"
  by (simp add: strptime_HM_def lit_def digit_value_ascii)

lemma strptime_arabic_indic:
  "strptime_HM [49, 1635, 58, 48, 1637] =
     Some \<lparr>hour = 13, minute = 5, second = 0, microsecond = 0\<rparr> \<and>
   strptime_HM [50, 1635, 58, 48, 48] = None \<and>
   strptime_HM [49, 48, 58, 1637, 1637] = None \<and>
   strptime_HM (lit ''24:00'') = None \<and> strptime_HM (lit ''1:60'') = None \<and>
   strptime_HM (lit ''09:00 '') = None"
  by (simp add: strptime_HM_def lit_def digit_value_def decimal_zeros_def)

text \<open>
  Claim C3. A weekday whose business-hours row is inactive should be closed all day. On
  the table that \<open>create_default_business_hours\<close> writes, Saturday has a row and the
  row is inactive, yet \<open>is_business_hours\<close> answers open at every time of that day: its
  query keeps only rows with \<open>is_active == True\<close>, so an inactive row is treated like a
  missing one.
\<close>

theorem inactive_day_reported_open:
  "bh_is_active (default_row 1 5) = Some False \<and>
   find (\<lambda>b. day_of_week b = 5) (business_hours seeded_db) = Some (default_row 1 5) \<and>
   is_business_hours seeded_db 5 t = Inr True"
  by (simp add: is_business_hours_def seeded_rows default_row_def)

lemma inactive_rows_fail_open:
  assumes "\<forall>b\<in>set (business_hours db). day_of_week b = d \<longrightarrow> bh_is_active b \<noteq> Some True"
  shows "is_business_hours db d t = Inr True"
proof -
  from assms have "find (\<lambda>b. day_of_week b = d \<and> bh_is_active b = Some True) (business_hours db) = None"
    by (auto simp: find_None_iff)
  then show ?thesis by (simp add: is_business_hours_def)
qed

lemma monday_evening_closed: "is_business_hours seeded_db 0 evening = Inr False"
  by (simp add: is_business_hours_def seeded_rows default_row_def strptime_0900 strptime_1800
        time_le_def evening_def)

lemma monday_noon_open: "is_business_hours seeded_db 0 noon = Inr True"
  by (simp add: is_business_hours_def seeded_rows default_row_def strptime_0900 strptime_1800
        time_le_def noon_def)

lemma py_in_sublist: "py_in k m \<longleftrightarrow> sublist k m"
  by (induction m) (simp_all add: sublist_Cons_right)

lemma ollama_should_auto_respond_iff:
  "ollama_should_auto_respond text \<longleftrightarrow> (\<exists>k\<in>set simple_keywords. sublist k text)"
  by (simp add: ollama_should_auto_respond_def list_ex_iff py_in_sublist)

text \<open>
  Claim C1, as the code has it. The decision taken in \<open>process_incoming_message\<close> is
  true whenever business hours are closed, whatever the text says and without a look
  at the agents; with open hours it is true when no agent is available, and otherwise
  exactly when one of the twelve simple keywords (written out below) occurs in the
  text. No list of complex keywords is consulted.
\<close>

theorem decision_is_capacity_or_simple_keyword:
  "(is_business_hours db (local_weekday e) (local_time e) = Inr False \<longrightarrow>
      auto_respond_decision e db text = Inr True) \<and>
   (is_business_hours db (local_weekday e) (local_time e) = Inr True \<and>
    get_available_agents db = Inr av \<longrightarrow>
      auto_respond_decision e db text =
        Inr (av = [] \<or>
             (\<exists>k\<in>set [[0xC548, 0xB155], [0xC0AC, 0xC6A9, 0xBC95], [0xBC29, 0xBC95],
                        [0xAE30, 0xB2A5], [0xCC44, 0xB110], [0xC5F0, 0xB3D9], [0xC704, 0xC82F],
                        [0xB300, 0xC2DC, 0xBCF4, 0xB4DC], [0xD300, 0xC6D0], [0xCD08, 0xB300],
                        [0xAC00, 0xC785], [0xB85C, 0xADF8, 0xC778]].
                sublist k text)))"
proof (intro conjI impI)
  assume "is_business_hours db (local_weekday e) (local_time e) = Inr False"
  then show "auto_respond_decision e db text = Inr True"
    by (simp add: auto_respond_decision_def bh_should_auto_respond_def)
next
  assume "is_business_hours db (local_weekday e) (local_time e) = Inr True \<and>
    get_available_agents db = Inr av"
  then have "auto_respond_decision e db text =
      Inr (av = [] \<or> (\<exists>k\<in>set simple_keywords. sublist k text))"
    by (simp add: auto_respond_decision_def bh_should_auto_respond_def
          ollama_should_auto_respond_iff)
  then show "auto_respond_decision e db text =
        Inr (av = [] \<or>
             (\<exists>k\<in>set [[0xC548, 0xB155], [0xC0AC, 0xC6A9, 0xBC95], [0xBC29, 0xBC95],
                        [0xAE30, 0xB2A5], [0xCC44, 0xB110], [0xC5F0, 0xB3D9], [0xC704, 0xC82F],
                        [0xB300, 0xC2DC, 0xBCF4, 0xB4DC], [0xD300, 0xC6D0], [0xCD08, 0xB300],
                        [0xAC00, 0xC785], [0xB85C, 0xADF8, 0xC778]].
                sublist k text))"
    unfolding simple_keywords_def .
qed

lemma lawsuit_no_keyword: "\<not> ollama_should_auto_respond lawsuit_message"
  by (simp add: ollama_should_auto_respond_def simple_keywords_def lawsuit_message_def)

lemma urgent_howto_keyword: "ollama_should_auto_respond urgent_howto_message"
  by (simp add: ollama_should_auto_respond_def simple_keywords_def urgent_howto_message_def)

lemma staffed_available:
  "get_available_agents staffed_db =
     Inr [\<lparr>agent = mk_agent 1 (lit ''agent'') (lit ''online'') (Some 5), current_load = 0, capacity = 5\<rparr>]"
  by (simp add: get_available_agents_def staffed_db_def seeded_db_def
        create_default_business_hours_def empty_db_def in_pool_def mk_agent_def current_chats_def)

lemma staffed_hours: "business_hours staffed_db = business_hours seeded_db"
  by (simp add: staffed_db_def)

lemma staffed_noon_open: "is_business_hours staffed_db 0 noon = Inr True"
  using monday_noon_open by (simp add: is_business_hours_def staffed_hours)

text \<open>
  Claim C1 as stated fails: a text with the word for contract gets an automatic reply
  outside business hours, and a text with the word for urgent and a simple keyword gets
  one during business hours with an agent available.
\<close>

theorem complex_keyword_no_precedence:
  "py_in contract_keyword lawsuit_message \<and>
   auto_respond_decision monday_evening seeded_db lawsuit_message = Inr True \<and>
   py_in urgent_keyword urgent_howto_message \<and>
   auto_respond_decision monday_noon staffed_db urgent_howto_message = Inr True"
proof -
  have 1: "auto_respond_decision monday_evening seeded_db lawsuit_message = Inr True"
    using monday_evening_closed
    by (simp add: auto_respond_decision_def bh_should_auto_respond_def monday_evening_def)
  have 2: "auto_respond_decision monday_noon staffed_db urgent_howto_message = Inr True"
    using staffed_noon_open staffed_available urgent_howto_keyword
    by (simp add: auto_respond_decision_def bh_should_auto_respond_def monday_noon_def
          monday_evening_def)
  have 3: "py_in contract_keyword lawsuit_message"
    by (simp add: contract_keyword_def lawsuit_message_def)
  have 4: "py_in urgent_keyword urgent_howto_message"
    by (simp add: urgent_keyword_def urgent_howto_message_def)
  from 1 2 3 4 show ?thesis by simp
qed

text \<open>
  The theorem for claim C1 on a Monday: in the evening with an agent whose capacity is
  NULL (the agents query would raise, and is not reached), at noon with nobody on the
  team, and at noon with an available agent, for a text without and a text with a
  simple keyword.
\<close>

lemma unlimited_hours: "business_hours unlimited_db = business_hours seeded_db"
  by (simp add: unlimited_db_def)

lemma unlimited_evening_closed: "is_business_hours unlimited_db 0 evening = Inr False"
  using monday_evening_closed by (simp add: is_business_hours_def unlimited_hours)

lemma unlimited_raises: "get_available_agents unlimited_db = Inl TypeError"
  by (simp add: get_available_agents_def unlimited_db_def in_pool_def mk_agent_def)

lemma seeded_nobody: "get_available_agents seeded_db = Inr []"
  by (simp add: get_available_agents_def seeded_db_def create_default_business_hours_def
        empty_db_def)

theorem decision_is_capacity_or_simple_keyword_witness:
  "is_business_hours unlimited_db (local_weekday monday_evening) (local_time monday_evening) =
     Inr False \<and>
   get_available_agents unlimited_db = Inl TypeError \<and>
   auto_respond_decision monday_evening unlimited_db lawsuit_message = Inr True \<and>
   is_business_hours seeded_db (local_weekday monday_noon) (local_time monday_noon) = Inr True \<and>
   get_available_agents seeded_db = Inr [] \<and>
   auto_respond_decision monday_noon seeded_db lawsuit_message = Inr True \<and>
   is_business_hours staffed_db (local_weekday monday_noon) (local_time monday_noon) = Inr True \<and>
   get_available_agents staffed_db =
     Inr [\<lparr>agent = mk_agent 1 (lit ''agent'') (lit ''online'') (Some 5), current_load = 0,
           capacity = 5\<rparr>] \<and>
   auto_respond_decision monday_noon staffed_db lawsuit_message = Inr False \<and>
   auto_respond_decision monday_noon staffed_db urgent_howto_message = Inr True"
proof -
  have closed: "is_business_hours unlimited_db (local_weekday monday_evening)
      (local_time monday_evening) = Inr False"
    using unlimited_evening_closed by (simp add: monday_evening_def)
  have open_seeded: "is_business_hours seeded_db (local_weekday monday_noon)
      (local_time monday_noon) = Inr True"
    using monday_noon_open by (simp add: monday_noon_def monday_evening_def)
  have open_staffed: "is_business_hours staffed_db (local_weekday monday_noon)
      (local_time monday_noon) = Inr True"
    using staffed_noon_open by (simp add: monday_noon_def monday_evening_def)
  have none: "\<not> (\<exists>k\<in>set simple_keywords. sublist k lawsuit_message)"
    using lawsuit_no_keyword by (simp add: ollama_should_auto_respond_iff)
  have some: "\<exists>k\<in>set simple_keywords. sublist k urgent_howto_message"
    using urgent_howto_keyword by (simp add: ollama_should_auto_respond_iff)
  have 1: "auto_respond_decision monday_evening unlimited_db lawsuit_message = Inr True"
    using decision_is_capacity_or_simple_keyword
            [of unlimited_db monday_evening lawsuit_message "[]"] closed
    by blast
  have 2: "auto_respond_decision monday_noon seeded_db lawsuit_message = Inr True"
    using decision_is_capacity_or_simple_keyword
            [of seeded_db monday_noon lawsuit_message "[]"] open_seeded seeded_nobody
    by simp
  have 3: "auto_respond_decision monday_noon staffed_db lawsuit_message = Inr False"
  proof -
    from decision_is_capacity_or_simple_keyword
           [of staffed_db monday_noon lawsuit_message
               "[\<lparr>agent = mk_agent 1 (lit ''agent'') (lit ''online'') (Some 5), current_load = 0,
                  capacity = 5\<rparr>]"]
         open_staffed staffed_available
    have "auto_respond_decision monday_noon staffed_db lawsuit_message =
            Inr (\<exists>k\<in>set simple_keywords. sublist k lawsuit_message)"
      unfolding simple_keywords_def by simp
    with none show ?thesis by simp
  qed
  have 4: "auto_respond_decision monday_noon staffed_db urgent_howto_message = Inr True"
  proof -
    from decision_is_capacity_or_simple_keyword
           [of staffed_db monday_noon urgent_howto_message
               "[\<lparr>agent = mk_agent 1 (lit ''agent'') (lit ''online'') (Some 5), current_load = 0,
                  capacity = 5\<rparr>]"]
         open_staffed staffed_available
    have "auto_respond_decision monday_noon staffed_db urgent_howto_message =
            Inr (\<exists>k\<in>set simple_keywords. sublist k urgent_howto_message)"
      unfolding simple_keywords_def by simp
    with some show ?thesis by simp
  qed
  from closed unlimited_raises 1 open_seeded seeded_nobody 2 open_staffed staffed_available 3 4
  show ?thesis by (intro conjI)
qed

section \<open>Properties of the connection manager\<close>

lemma send_unregistered_noop:
  "map_of m client_id = None \<Longrightarrow> send_personal_message m p client_id = Inr m"
  by (simp add: send_personal_message_def)

lemma send_broken_raises:
  "map_of m client_id = Some ws \<Longrightarrow> broken ws \<Longrightarrow> send_personal_message m p client_id = Inl SendError"
  by (simp add: send_personal_message_def send_text_def)

lemma broadcast_never_raises_keys: "map fst (broadcast m p) = map fst m"
  by (induction m p rule: broadcast.induct) (simp_all split: sum.splits)

text \<open>
  Claim C9. A send to a registered client whose channel is broken should be caught
  inside the manager. \<open>send_personal_message\<close> lets the exception out, while both
  broadcast methods absorb it on the same manager and leave the client registered.
\<close>

theorem send_personal_message_propagates:
  "send_personal_message one_broken_agent (Text (lit ''hello'')) (lit ''agent_1'') = Inl SendError \<and>
   broadcast one_broken_agent (Text (lit ''hello'')) = one_broken_agent \<and>
   broadcast_to_agents one_broken_agent (Text (lit ''hello'')) None = one_broken_agent"
  by (simp add: send_personal_message_def one_broken_agent_def broken_socket_def send_text_def lit_def)

section \<open>Runs of the inbound pipeline\<close>

lemma lit_Nil [simp]: "lit [] = []"
  by (simp add: lit_def)

lemma lit_eq_Nil [simp]: "lit s = [] \<longleftrightarrow> s = []"
  by (simp add: lit_def)

lemma Nil_eq_lit [simp]: "[] = lit s \<longleftrightarrow> s = []"
  by (auto simp: lit_def)

lemma staffed_db_eq:
  "staffed_db = \<lparr>users = [mk_agent 1 (lit ''agent'') (lit ''online'') (Some 5)], customers = [],
                  conversations = [], messages = [],
                  business_hours = map (default_row 1) [0, 1, 2, 3, 4, 5, 6]\<rparr>"
  by (simp add: staffed_db_def seeded_db_def create_default_business_hours_def empty_db_def
        next_id_def)

lemma next_id_Nil: "next_id [] = 1"
  by (simp add: next_id_def)

lemma next_id_1: "next_id [1] = 2"
  by (simp add: next_id_def)

lemma step_customer_new:
  "resolve_customer 100 staffed_db (lit ''kakao'') (lit ''u1'') (lit ''Kakao User'') None =
     (kakao_customer, staffed_db\<lparr>customers := [kakao_customer]\<rparr>)"
  by (simp add: resolve_customer_def staffed_db_eq next_id_Nil kakao_customer_def Let_def)

lemma pool_one:
  "filter in_pool [mk_agent 1 (lit ''agent'') (lit ''online'') (Some 5)] =
     [mk_agent 1 (lit ''agent'') (lit ''online'') (Some 5)]"
  by (simp add: in_pool_def mk_agent_def)

lemma available_one:
  assumes "users db = [mk_agent 1 (lit ''agent'') (lit ''online'') (Some 5)]"
      and "current_chats db 1 < 5"
  shows "get_available_agents db =
           Inr [\<lparr>agent = mk_agent 1 (lit ''agent'') (lit ''online'') (Some 5),
                 current_load = current_chats db 1, capacity = 5\<rparr>]"
  using assms(2) unfolding get_available_agents_def assms(1) pool_one Let_def
  by (simp add: mk_agent_def)

lemma step_conversation_new:
  "resolve_conversation 100 (staffed_db\<lparr>customers := [kakao_customer]\<rparr>) 1 (lit ''kakao'')
       (lit ''Kakao User'') None =
     (Inr 1, kakao_db (lit ''open'') 0 [])"
proof -
  let ?c = "\<lparr>conv_id = 1, conv_customer_id = 1, channel_type = Some (lit ''kakao''),
                    conv_status = Some (lit ''open''), assigned_agent_id = None,
                    assigned_at = None, priority = Some 0, unread_count = Some 0,
                    last_message_at = None, profile_name = Some (lit ''Kakao User''),
                    conv_profile_image = None,
                    conv_created_at = 100, conv_updated_at = 100\<rparr>"
  let ?db1 = "staffed_db\<lparr>customers := [kakao_customer], conversations := [?c]\<rparr>"
  have load: "current_chats ?db1 1 = 0"
    by (simp add: current_chats_def)
  have av: "get_available_agents ?db1 =
           Inr [\<lparr>agent = mk_agent 1 (lit ''agent'') (lit ''online'') (Some 5),
                 current_load = 0, capacity = 5\<rparr>]"
    using available_one[of ?db1] load by (simp add: staffed_db_eq)
  have "assign_agent_to_conversation ?db1 1 100 = Inr (True, kakao_db (lit ''open'') 0 [])"
    unfolding assign_agent_to_conversation_def av
    by (simp add: get_conversation_def update_conversation_def kakao_db_def
          kakao_conversation_def mk_agent_def staffed_db_eq)
  then show ?thesis
    by (simp add: resolve_conversation_def staffed_db_eq next_id_Nil Let_def)
qed

lemma kakao_db_simps:
  "users (kakao_db st n ms) = [mk_agent 1 (lit ''agent'') (lit ''online'') (Some 5)]"
  "customers (kakao_db st n ms) = [kakao_customer]"
  "conversations (kakao_db st n ms) = [kakao_conversation st n]"
  "messages (kakao_db st n ms) = ms"
  "business_hours (kakao_db st n ms) = map (default_row 1) [0, 1, 2, 3, 4, 5, 6]"
  by (simp_all add: kakao_db_def staffed_db_eq)

lemma kakao_db_messages_update:
  "(kakao_db st n ms)\<lparr>messages := ms'\<rparr> = kakao_db st n ms'"
  by (simp add: kakao_db_def)

lemma kakao_db_conversations_update:
  "(kakao_db st n ms)\<lparr>conversations := [kakao_conversation st' n']\<rparr> = kakao_db st' n' ms"
  by (simp add: kakao_db_def)

lemma step_customer_known:
  "resolve_customer 100 (kakao_db st n ms) (lit ''kakao'') (lit ''u1'') (lit ''Kakao User'') None =
     (kakao_customer, kakao_db st n ms)"
  by (simp add: resolve_customer_def kakao_db_simps kakao_customer_def Let_def py_str_def
        truthy_def)

lemma step_conversation_known:
  "resolve_conversation 100 (kakao_db st n ms) 1 (lit ''kakao'') (lit ''Kakao User'') None =
     (Inr 1, kakao_db st n ms)"
  by (simp add: resolve_conversation_def kakao_db_simps kakao_conversation_def Let_def
        or_empty_def truthy_def)

lemma step_store:
  assumes "0 \<le> n"
  shows "store_message 100 (kakao_db st n ms) 1 (lit ''kakao'') text =
     (kakao_message (next_id (map msg_id ms)) (lit ''customer'') (lit ''received'') text,
      kakao_db st (n + 1)
        (ms @ [kakao_message (next_id (map msg_id ms)) (lit ''customer'') (lit ''received'') text]))"
  using assms
  by (simp add: store_message_def Let_def update_conversation_def kakao_db_simps
        kakao_db_messages_update kakao_message_def)
     (simp add: kakao_db_def kakao_conversation_def)

lemma kakao_db_load: "current_chats (kakao_db st n ms) 1 < 5"
  by (simp add: current_chats_def kakao_db_simps kakao_conversation_def)

lemma kakao_db_hours_noon: "is_business_hours (kakao_db st n ms) 0 noon = Inr True"
  using monday_noon_open by (simp add: is_business_hours_def kakao_db_simps seeded_rows)

lemma kakao_db_hours_evening: "is_business_hours (kakao_db st n ms) 0 evening = Inr False"
  using monday_evening_closed by (simp add: is_business_hours_def kakao_db_simps seeded_rows)

lemma decision_noon:
  "auto_respond_decision monday_noon (kakao_db st n ms) text = Inr (ollama_should_auto_respond text)"
  using kakao_db_hours_noon[of st n ms]
        available_one[OF kakao_db_simps(1) kakao_db_load, of st n ms]
  by (simp add: auto_respond_decision_def bh_should_auto_respond_def monday_noon_def
        monday_evening_def)

lemma decision_evening:
  "auto_respond_decision monday_evening (kakao_db st n ms) text = Inr True"
  using kakao_db_hours_evening[of st n ms]
  by (simp add: auto_respond_decision_def bh_should_auto_respond_def monday_evening_def)

lemma broadcast_notified: "broadcast_to_agents (notified ps) p None = notified (ps @ [p])"
  by (simp add: notified_def healthy_socket_def send_text_def lit_def)

lemma run_noon:
  assumes "\<not> ollama_should_auto_respond text" and "0 \<le> n"
  shows "process_incoming_message monday_noon (kakao_db st n ms, notified ps) (lit ''kakao'')
           (lit ''u1'') (lit ''Kakao User'') text None =
         (Inr \<lparr>out_conversation_id = 1, ai_responded = False\<rparr>,
          kakao_db st (n + 1)
            (ms @ [kakao_message (next_id (map msg_id ms)) (lit ''customer'') (lit ''received'') text]),
          notified (ps @ [notice (next_id (map msg_id ms)) text False]))"
proof -
  have now: "utcnow monday_noon = 100" by (simp add: monday_noon_def monday_evening_def)
  have cid: "customer_id kakao_customer = 1" by (simp add: kakao_customer_def)
  show ?thesis
    unfolding process_incoming_message_def now Let_def fst_conv snd_conv step_customer_known
      cid step_conversation_known
    using assms(1)
    by (simp add: kakao_customer_def step_store[OF assms(2)] auto_reply_def decision_noon
          broadcast_notified notice_def py_str_def truthy_def kakao_message_def)
qed

lemma run_first:
  assumes "\<not> ollama_should_auto_respond text"
  shows "process_incoming_message monday_noon (staffed_db, notified ps) (lit ''kakao'')
           (lit ''u1'') (lit ''Kakao User'') text None =
         (Inr \<lparr>out_conversation_id = 1, ai_responded = False\<rparr>,
          kakao_db (lit ''open'') 1 [kakao_message 1 (lit ''customer'') (lit ''received'') text],
          notified (ps @ [notice 1 text False]))"
proof -
  have now: "utcnow monday_noon = 100" by (simp add: monday_noon_def monday_evening_def)
  have cid: "customer_id kakao_customer = 1" by (simp add: kakao_customer_def)
  show ?thesis
    unfolding process_incoming_message_def now Let_def fst_conv snd_conv step_customer_new
      cid step_conversation_new
    using assms(1)
    by (simp add: kakao_customer_def step_store auto_reply_def decision_noon next_id_Nil
          broadcast_notified notice_def py_str_def truthy_def kakao_message_def)
qed

lemma run_leave:
  "kakao_webhook monday_noon (kakao_db (lit ''open'') n ms, notified ps) leave_payload =
     (None, kakao_db (lit ''closed'') n ms, notified (ps @ [ConversationEnded 1]))"
proof -
  have now: "utcnow monday_noon = 100" by (simp add: monday_noon_def monday_evening_def)
  have upd: "update_conversation 1 (\<lambda>x. x\<lparr>conv_status := Some (lit ''closed'')\<rparr>) 100
               (kakao_db (lit ''open'') n ms) = kakao_db (lit ''closed'') n ms"
    by (simp add: update_conversation_def kakao_db_simps)
       (simp add: kakao_db_def kakao_conversation_def)
  show ?thesis
    by (simp add: kakao_webhook_def leave_payload_def no_payload_def truthy_def or_empty_def
          Let_def kakao_db_simps now broadcast_notified)
       (simp add: kakao_conversation_def kakao_customer_def upd[unfolded kakao_conversation_def])
qed

lemma kakao_message_payload:
  assumes "text \<noteq> []"
  shows "kakao_webhook e st (hello_payload text) =
           (case process_incoming_message e st (lit ''kakao'') (lit ''u1'') (lit ''Kakao User'')
                   text None of
              (Inl err, st') \<Rightarrow> (Some err, st')
            | (Inr ok, st') \<Rightarrow> (None, st'))"
  using assms
  by (simp add: kakao_webhook_def hello_payload_def no_payload_def truthy_def or_empty_def
        Let_def)

lemma empty_message_is_skipped: "kakao_webhook e st (hello_payload []) = (None, st)"
  by (simp add: kakao_webhook_def hello_payload_def no_payload_def truthy_def or_empty_def
        Let_def)

lemma hello_no_keyword: "\<not> ollama_should_auto_respond (lit ''hello'')"
  by (simp add: ollama_should_auto_respond_def simple_keywords_def lit_def)

lemma again_no_keyword: "\<not> ollama_should_auto_respond (lit ''again'')"
  by (simp add: ollama_should_auto_respond_def simple_keywords_def lit_def)

lemma blank_no_keyword: "\<not> ollama_should_auto_respond (lit '' '')"
  by (simp add: ollama_should_auto_respond_def simple_keywords_def lit_def)

lemma resolve_conversation_ignores_status:
  assumes "find (\<lambda>c. conv_customer_id c = cust \<and> channel_type c = Some pf) (conversations db) = Some c"
  shows "fst (resolve_conversation now db cust pf name img) = Inr (conv_id c) \<and>
         map conv_id (conversations (snd (resolve_conversation now db cust pf name img))) =
           map conv_id (conversations db) \<and>
         map conv_status (conversations (snd (resolve_conversation now db cust pf name img))) =
           map conv_status (conversations db)"
  using assms
  by (simp add: resolve_conversation_def Let_def update_conversation_def comp_def)

text \<open>
  Claim C2. After a conversation is closed, the next inbound message on the channel
  should open a new conversation. Three Kakao requests of one user: a message, the
  leave event, a second message. The second message is stored in conversation 1, which
  stays closed, and no second conversation is created.
\<close>

theorem closed_conversation_is_reused:
  "kakao_webhook monday_noon (staffed_db, notified []) (hello_payload (lit ''hello'')) =
     (None, kakao_db (lit ''open'') 1 [kakao_message 1 (lit ''customer'') (lit ''received'') (lit ''hello'')],
      notified [notice 1 (lit ''hello'') False]) \<and>
   kakao_webhook monday_noon
     (kakao_db (lit ''open'') 1 [kakao_message 1 (lit ''customer'') (lit ''received'') (lit ''hello'')],
      notified [notice 1 (lit ''hello'') False]) leave_payload =
     (None, kakao_db (lit ''closed'') 1 [kakao_message 1 (lit ''customer'') (lit ''received'') (lit ''hello'')],
      notified [notice 1 (lit ''hello'') False, ConversationEnded 1]) \<and>
   kakao_webhook monday_noon
     (kakao_db (lit ''closed'') 1 [kakao_message 1 (lit ''customer'') (lit ''received'') (lit ''hello'')],
      notified [notice 1 (lit ''hello'') False, ConversationEnded 1])
     (hello_payload (lit ''again'')) =
     (None, kakao_db (lit ''closed'') 2
              [kakao_message 1 (lit ''customer'') (lit ''received'') (lit ''hello''),
               kakao_message 2 (lit ''customer'') (lit ''received'') (lit ''again'')],
      notified [notice 1 (lit ''hello'') False, ConversationEnded 1, notice 2 (lit ''again'') False]) \<and>
   map (\<lambda>c. (conv_id c, conv_status c, unread_count c))
       (conversations (kakao_db (lit ''closed'') 2
              [kakao_message 1 (lit ''customer'') (lit ''received'') (lit ''hello''),
               kakao_message 2 (lit ''customer'') (lit ''received'') (lit ''again'')])) =
     [(1, Some (lit ''closed''), Some 2)] \<and>
   conversation_id (kakao_message 2 (lit ''customer'') (lit ''received'') (lit ''again'')) = 1"
proof -
  have id1: "msg_id (kakao_message 1 (lit ''customer'') (lit ''received'') (lit ''hello'')) = 1"
    by (simp add: kakao_message_def)
  have 1: "kakao_webhook monday_noon (staffed_db, notified []) (hello_payload (lit ''hello'')) =
     (None, kakao_db (lit ''open'') 1 [kakao_message 1 (lit ''customer'') (lit ''received'') (lit ''hello'')],
      notified [notice 1 (lit ''hello'') False])"
    using run_first[OF hello_no_keyword, of "[]"] by (simp add: kakao_message_payload)
  have 2: "kakao_webhook monday_noon
     (kakao_db (lit ''open'') 1 [kakao_message 1 (lit ''customer'') (lit ''received'') (lit ''hello'')],
      notified [notice 1 (lit ''hello'') False]) leave_payload =
     (None, kakao_db (lit ''closed'') 1 [kakao_message 1 (lit ''customer'') (lit ''received'') (lit ''hello'')],
      notified [notice 1 (lit ''hello'') False, ConversationEnded 1])"
    using run_leave[of 1 _ "[notice 1 (lit ''hello'') False]"] by simp
  have 3: "kakao_webhook monday_noon
     (kakao_db (lit ''closed'') 1 [kakao_message 1 (lit ''customer'') (lit ''received'') (lit ''hello'')],
      notified [notice 1 (lit ''hello'') False, ConversationEnded 1])
     (hello_payload (lit ''again'')) =
     (None, kakao_db (lit ''closed'') 2
              [kakao_message 1 (lit ''customer'') (lit ''received'') (lit ''hello''),
               kakao_message 2 (lit ''customer'') (lit ''received'') (lit ''again'')],
      notified [notice 1 (lit ''hello'') False, ConversationEnded 1, notice 2 (lit ''again'') False])"
    using run_noon[OF again_no_keyword, of 1 "lit ''closed''"
            "[kakao_message 1 (lit ''customer'') (lit ''received'') (lit ''hello'')]"
            "[notice 1 (lit ''hello'') False, ConversationEnded 1]"]
    by (simp add: kakao_message_payload id1 next_id_1)
  have 4: "map (\<lambda>c. (conv_id c, conv_status c, unread_count c))
       (conversations (kakao_db (lit ''closed'') 2
              [kakao_message 1 (lit ''customer'') (lit ''received'') (lit ''hello''),
               kakao_message 2 (lit ''customer'') (lit ''received'') (lit ''again'')])) =
     [(1, Some (lit ''closed''), Some 2)]"
    by (simp add: kakao_db_simps kakao_conversation_def)
  have 5: "conversation_id (kakao_message 2 (lit ''customer'') (lit ''received'') (lit ''again'')) = 1"
    by (simp add: kakao_message_def)
  from 1 2 3 4 5 show ?thesis by (intro conjI)
qed

text \<open>
  Claim C5. A whitespace-only text should leave the database and the agents untouched.
  A Kakao request whose utterance is one space passes the handler's guard (the string
  is not empty) and runs the whole pipeline: a customer, a conversation and a message
  are created and the agent's socket receives the notification.
\<close>

theorem whitespace_message_is_processed:
  "strip (lit '' '') = [] \<and>
   kakao_webhook monday_noon (staffed_db, notified []) (hello_payload (lit '' '')) =
     (None, kakao_db (lit ''open'') 1 [kakao_message 1 (lit ''customer'') (lit ''received'') (lit '' '')],
      notified [notice 1 (lit '' '') False]) \<and>
   customers staffed_db = [] \<and> conversations staffed_db = [] \<and> messages staffed_db = [] \<and>
   customers (kakao_db (lit ''open'') 1 [kakao_message 1 (lit ''customer'') (lit ''received'') (lit '' '')]) =
     [kakao_customer] \<and>
   conversations (kakao_db (lit ''open'') 1 [kakao_message 1 (lit ''customer'') (lit ''received'') (lit '' '')]) =
     [kakao_conversation (lit ''open'') 1] \<and>
   content (kakao_message 1 (lit ''customer'') (lit ''received'') (lit '' '')) = lit '' ''"
proof -
  have 0: "strip (lit '' '') = []"
    by (simp add: strip_def lit_def is_space_def)
  have 1: "kakao_webhook monday_noon (staffed_db, notified []) (hello_payload (lit '' '')) =
     (None, kakao_db (lit ''open'') 1 [kakao_message 1 (lit ''customer'') (lit ''received'') (lit '' '')],
      notified [notice 1 (lit '' '') False])"
    using run_first[OF blank_no_keyword, of "[]"] by (simp add: kakao_message_payload)
  have 2: "customers staffed_db = [] \<and> conversations staffed_db = [] \<and> messages staffed_db = []"
    by (simp add: staffed_db_eq)
  have 3: "content (kakao_message 1 (lit ''customer'') (lit ''received'') (lit '' '')) = lit '' ''"
    by (simp add: kakao_message_def)
  from 0 1 2 3 show ?thesis by (simp add: kakao_db_simps)
qed

lemma get_response_failure:
  assumes "\<not> chat_available cb \<or> (\<forall>ms. ollama_chat cb ms = None)"
  shows "get_response cb text h ctx = (if chat_available cb then failure_text else unavailable_text)"
  using assms by (auto simp: get_response_def)

lemma failure_text_nonempty: "failure_text \<noteq> []"
  by (simp add: failure_text_def)

lemma unavailable_text_nonempty: "unavailable_text \<noteq> []"
  by (simp add: unavailable_text_def)

text \<open>
  Claim C4, as the code has it. When steps 1 to 4 succeed, the decision is true and the
  reply cannot be generated (the chatbot is unavailable or the model call raises),
  \<open>get_response\<close> returns one of its two fixed apology texts; the pipeline stores it as
  a bot message, goes on to the broadcast with \<open>ai_responded\<close> true, and returns
  success.
\<close>

theorem generation_failure_yields_apology:
  assumes "resolve_customer (utcnow e) db pf ext name img = (cust, db1)"
      and "resolve_conversation (utcnow e) db1 (customer_id cust) pf name img = (Inr cid, db2)"
      and "store_message (utcnow e) db2 cid pf text = (msg, db3)"
      and "auto_respond_decision e db3 text = Inr True"
      and "\<not> chat_available (ollama_chatbot e) \<or> (\<forall>ms. ollama_chat (ollama_chatbot e) ms = None)"
  shows "\<exists>apology note.
           (apology = failure_text \<or> apology = unavailable_text) \<and> apology \<noteq> [] \<and>
           n_ai_responded note \<and>
           process_incoming_message e (db, mgr) pf ext name text img =
             (Inr \<lparr>out_conversation_id = cid, ai_responded = True\<rparr>,
              db3\<lparr>messages := messages db3 @
                     [\<lparr>msg_id = next_id (map msg_id (messages db3)), conversation_id = cid,
                       sender_type = Some (lit ''bot''), sender_id = None, content = apology,
                       message_type = Some (lit ''text''), msg_status = Some (lit ''sent''),
                       channel = Some pf, msg_created_at = utcnow e\<rparr>]\<rparr>,
              broadcast_to_agents mgr (NewCustomerMessage note) None)"
proof -
  let ?apology = "if chat_available (ollama_chatbot e) then failure_text else unavailable_text"
  have nonempty: "?apology \<noteq> []"
    by (simp add: failure_text_nonempty unavailable_text_nonempty)
  have reply: "auto_reply e db3 cid pf text =
      (Inr (Some ?apology),
       db3\<lparr>messages := messages db3 @
                     [\<lparr>msg_id = next_id (map msg_id (messages db3)), conversation_id = cid,
                       sender_type = Some (lit ''bot''), sender_id = None, content = ?apology,
                       message_type = Some (lit ''text''), msg_status = Some (lit ''sent''),
                       channel = Some pf, msg_created_at = utcnow e\<rparr>]\<rparr>)"
    unfolding auto_reply_def assms(4) get_response_failure[OF assms(5)] Let_def
    using nonempty by simp
  let ?note = "\<lparr>n_conversation_id = cid, n_customer_id = customer_id cust,
                    n_customer_name = py_str (customer_name cust),
                    n_profile_image =
                      (if truthy (customer_profile_image cust)
                       then customer_profile_image cust else None),
                    n_channel = pf, n_message_id = msg_id msg,
                    n_message_content = text,
                    n_message_created_at = msg_created_at msg,
                    n_ai_responded = True\<rparr>"
  have run: "process_incoming_message e (db, mgr) pf ext name text img =
             (Inr \<lparr>out_conversation_id = cid, ai_responded = True\<rparr>,
              db3\<lparr>messages := messages db3 @
                     [\<lparr>msg_id = next_id (map msg_id (messages db3)), conversation_id = cid,
                       sender_type = Some (lit ''bot''), sender_id = None, content = ?apology,
                       message_type = Some (lit ''text''), msg_status = Some (lit ''sent''),
                       channel = Some pf, msg_created_at = utcnow e\<rparr>]\<rparr>,
              broadcast_to_agents mgr (NewCustomerMessage ?note) None)"
    unfolding process_incoming_message_def Let_def fst_conv snd_conv assms(1) assms(2)
      sum.case assms(3) reply
    by (simp only: option.simps simp_thms)
  have choice: "?apology = failure_text \<or> ?apology = unavailable_text" by simp
  have flag: "n_ai_responded ?note" by simp
  from choice nonempty flag run show ?thesis by blast
qed

lemma run_evening:
  "process_incoming_message monday_evening (staffed_db, notified []) (lit ''kakao'') (lit ''u1'')
       (lit ''Kakao User'') (lit ''hello'') None =
     (Inr \<lparr>out_conversation_id = 1, ai_responded = True\<rparr>,
      kakao_db (lit ''open'') 1
        [kakao_message 1 (lit ''customer'') (lit ''received'') (lit ''hello''),
         kakao_message 2 (lit ''bot'') (lit ''sent'') failure_text],
      notified [notice 1 (lit ''hello'') True])"
proof -
  have now: "utcnow monday_evening = 100" by (simp add: monday_evening_def)
  have cid: "customer_id kakao_customer = 1" by (simp add: kakao_customer_def)
  have bot: "ollama_chatbot monday_evening = silent_bot" by (simp add: monday_evening_def)
  have resp: "get_response silent_bot t h ctx = failure_text" for t h ctx
    by (simp add: get_response_def silent_bot_def)
  have id1: "msg_id (kakao_message 1 (lit ''customer'') (lit ''received'') (lit ''hello'')) = 1"
    by (simp add: kakao_message_def)
  have reply: "auto_reply monday_evening
          (kakao_db (lit ''open'') 1 [kakao_message 1 (lit ''customer'') (lit ''received'') (lit ''hello'')])
          1 (lit ''kakao'') (lit ''hello'') =
        (Inr (Some failure_text),
         kakao_db (lit ''open'') 1
           [kakao_message 1 (lit ''customer'') (lit ''received'') (lit ''hello''),
            kakao_message 2 (lit ''bot'') (lit ''sent'') failure_text])"
    unfolding auto_reply_def decision_evening bot resp Let_def now
    by (simp add: failure_text_nonempty kakao_db_simps kakao_db_messages_update id1 next_id_1)
       (simp add: kakao_message_def)
  show ?thesis
    unfolding process_incoming_message_def now Let_def fst_conv snd_conv step_customer_new
      cid step_conversation_new
    by (simp add: step_store next_id_Nil reply)
       (simp add: broadcast_notified[of "[]", simplified] notice_def kakao_customer_def
          py_str_def truthy_def kakao_message_def)
qed

text \<open>
  Claim C4 as stated fails: with a model call that raises, outside business hours, the
  conversation ends up with a bot message after the customer's.
\<close>

theorem failed_generation_stores_bot_message:
  "(\<forall>ms. ollama_chat (ollama_chatbot monday_evening) ms = None) \<and>
   process_incoming_message monday_evening (staffed_db, notified []) (lit ''kakao'') (lit ''u1'')
       (lit ''Kakao User'') (lit ''hello'') None =
     (Inr \<lparr>out_conversation_id = 1, ai_responded = True\<rparr>,
      kakao_db (lit ''open'') 1
        [kakao_message 1 (lit ''customer'') (lit ''received'') (lit ''hello''),
         kakao_message 2 (lit ''bot'') (lit ''sent'') failure_text],
      notified [notice 1 (lit ''hello'') True]) \<and>
   map sender_type (messages (kakao_db (lit ''open'') 1
        [kakao_message 1 (lit ''customer'') (lit ''received'') (lit ''hello''),
         kakao_message 2 (lit ''bot'') (lit ''sent'') failure_text])) =
     [Some (lit ''customer''), Some (lit ''bot'')]"
  using run_evening
  by (simp add: monday_evening_def silent_bot_def kakao_db_simps kakao_message_def)

text \<open>The theorem for claim C4 on the first Kakao message of a user, Monday evening.\<close>

theorem generation_failure_yields_apology_witness:
  "resolve_customer (utcnow monday_evening) staffed_db (lit ''kakao'') (lit ''u1'')
       (lit ''Kakao User'') None =
     (kakao_customer, staffed_db\<lparr>customers := [kakao_customer]\<rparr>) \<and>
   resolve_conversation (utcnow monday_evening) (staffed_db\<lparr>customers := [kakao_customer]\<rparr>)
       (customer_id kakao_customer) (lit ''kakao'') (lit ''Kakao User'') None =
     (Inr 1, kakao_db (lit ''open'') 0 []) \<and>
   store_message (utcnow monday_evening) (kakao_db (lit ''open'') 0 []) 1 (lit ''kakao'')
       (lit ''hello'') =
     (kakao_message 1 (lit ''customer'') (lit ''received'') (lit ''hello''),
      kakao_db (lit ''open'') 1
        [kakao_message 1 (lit ''customer'') (lit ''received'') (lit ''hello'')]) \<and>
   auto_respond_decision monday_evening
     (kakao_db (lit ''open'') 1
        [kakao_message 1 (lit ''customer'') (lit ''received'') (lit ''hello'')])
     (lit ''hello'') = Inr True \<and>
   (\<forall>ms. ollama_chat (ollama_chatbot monday_evening) ms = None) \<and>
   (\<exists>apology note.
      (apology = failure_text \<or> apology = unavailable_text) \<and> apology \<noteq> [] \<and>
      n_ai_responded note \<and>
      process_incoming_message monday_evening (staffed_db, notified []) (lit ''kakao'')
          (lit ''u1'') (lit ''Kakao User'') (lit ''hello'') None =
        (Inr \<lparr>out_conversation_id = 1, ai_responded = True\<rparr>,
         (kakao_db (lit ''open'') 1
            [kakao_message 1 (lit ''customer'') (lit ''received'') (lit ''hello'')])
           \<lparr>messages :=
              messages (kakao_db (lit ''open'') 1
                 [kakao_message 1 (lit ''customer'') (lit ''received'') (lit ''hello'')]) @
              [\<lparr>msg_id = next_id (map msg_id (messages (kakao_db (lit ''open'') 1
                    [kakao_message 1 (lit ''customer'') (lit ''received'') (lit ''hello'')]))),
                conversation_id = 1, sender_type = Some (lit ''bot''), sender_id = None,
                content = apology, message_type = Some (lit ''text''),
                msg_status = Some (lit ''sent''), channel = Some (lit ''kakao''),
                msg_created_at = utcnow monday_evening\<rparr>]\<rparr>,
         broadcast_to_agents (notified []) (NewCustomerMessage note) None))"
proof -
  have now: "utcnow monday_evening = 100" by (simp add: monday_evening_def)
  have cid: "customer_id kakao_customer = 1" by (simp add: kakao_customer_def)
  have h1: "resolve_customer (utcnow monday_evening) staffed_db (lit ''kakao'') (lit ''u1'')
       (lit ''Kakao User'') None =
     (kakao_customer, staffed_db\<lparr>customers := [kakao_customer]\<rparr>)"
    unfolding now by (rule step_customer_new)
  have h2: "resolve_conversation (utcnow monday_evening)
       (staffed_db\<lparr>customers := [kakao_customer]\<rparr>)
       (customer_id kakao_customer) (lit ''kakao'') (lit ''Kakao User'') None =
     (Inr 1, kakao_db (lit ''open'') 0 [])"
    unfolding now cid by (rule step_conversation_new)
  have h3: "store_message (utcnow monday_evening) (kakao_db (lit ''open'') 0 []) 1 (lit ''kakao'')
       (lit ''hello'') =
     (kakao_message 1 (lit ''customer'') (lit ''received'') (lit ''hello''),
      kakao_db (lit ''open'') 1
        [kakao_message 1 (lit ''customer'') (lit ''received'') (lit ''hello'')])"
    unfolding now using step_store[of 0 "lit ''open''" "[]" "lit ''hello''"]
    by (simp add: next_id_Nil)
  have h4: "auto_respond_decision monday_evening
     (kakao_db (lit ''open'') 1
        [kakao_message 1 (lit ''customer'') (lit ''received'') (lit ''hello'')])
     (lit ''hello'') = Inr True"
    by (rule decision_evening)
  have h5: "\<forall>ms. ollama_chat (ollama_chatbot monday_evening) ms = None"
    by (simp add: monday_evening_def silent_bot_def)
  from h5 have h5': "\<not> chat_available (ollama_chatbot monday_evening) \<or>
      (\<forall>ms. ollama_chat (ollama_chatbot monday_evening) ms = None)" by simp
  from generation_failure_yields_apology[OF h1 h2 h3 h4 h5', of "notified []"] h1 h2 h3 h4 h5
  show ?thesis by blast
qed

end
